theory Spec2Isabelle
  imports Main
begin

section \<open>The Alpine provisioner of libmachine/provision/alpine.go\<close>

subsection \<open>Data model\<close>

text \<open>
  Go error values. Two kinds reach the caller of this file's functions: the one built here
  by \<^verbatim>\<open>fmt.Errorf\<close> (line 84), and those handed back by the remote command
  executor or by a collaborator. Go keeps them apart by identity; the model keeps them
  apart by constructor, the payload being the diagnostic the environment produced.
\<close>

datatype error =
    Errorf string
  | External string

text \<open>
  Modelled from the spec: package \<^verbatim>\<open>pkgaction\<close> is not part of the sources at hand;
  section 4.1 gives the closed enumeration PackageAction = Install, Remove, Upgrade.
\<close>

datatype PackageAction = Install | Remove | Upgrade

text \<open>
  The \<^verbatim>\<open>drivers.Driver\<close> interface, as far as alpine.go queries it:
  \<^verbatim>\<open>GetMachineName()\<close> and \<^verbatim>\<open>DriverName()\<close>. The driver is only read.
\<close>

record driver =
  GetMachineName :: string
  DriverName :: string

text \<open>
  \<^verbatim>\<open>swarm.Options\<close>, \<^verbatim>\<open>engine.Options\<close> and \<^verbatim>\<open>auth.Options\<close> are declared outside
  alpine.go. The fields alpine.go reads or writes are named; all the other fields of the
  swarm and engine structs are carried along unchanged in \<open>swarm_other\<close> and
  \<open>eng_other\<close>, and \<^verbatim>\<open>auth.Options\<close> is the type parameter \<open>'a\<close>.
\<close>

record 's swarm_options =
  swarm_Env :: "string list"
  swarm_other :: 's

record 'e engine_options =
  eng_Env :: "string list"
  eng_StorageDriver :: string
  eng_InstallURL :: string
  eng_other :: 'e

text \<open>
  \<^verbatim>\<open>AlpineProvisioner\<close> embeds \<^verbatim>\<open>GenericProvisioner\<close> and adds no field of its own.
  The fields are those alpine.go sets or reads.
\<close>

record ('a, 's, 'e) AlpineProvisioner =
  SSHCommander :: driver
  DockerOptionsDir :: string
  DaemonOptionsFile :: string
  OsReleaseID :: string
  Packages :: "string list"
  Driver :: driver
  SwarmOptions :: "'s swarm_options"
  AuthOptions :: 'a
  EngineOptions :: "'e engine_options"

subsection \<open>The environment: remote commands and collaborators\<close>

text \<open>
  Everything the provisioner does to the outside world is recorded, in order, as an event:
  a remote command handed to \<^verbatim>\<open>SSHCommand\<close>, or a call of one of the functions that
  live outside alpine.go. A collaborator is handed the provisioner (a pointer in Go); the
  event records the provisioner's fields at the moment of the call, and the further
  arguments.
\<close>

datatype ('a, 's, 'e) event =
    SSH string
  | GenericSetHostname "('a, 's, 'e) AlpineProvisioner" string
  | SelectDocker "('a, 's, 'e) AlpineProvisioner" string
  | MakeDockerOptionsDir "('a, 's, 'e) AlpineProvisioner"
  | ConfigureAuthCall "('a, 's, 'e) AlpineProvisioner"
  | ConfigureSwarmCall "('a, 's, 'e) AlpineProvisioner" "'s swarm_options" 'a

text \<open>
  Modelled from the spec: the command executor behind \<^verbatim>\<open>SSHCommand\<close>, the generic
  base's \<^verbatim>\<open>SetHostname\<close>, \<^verbatim>\<open>selectDocker\<close>, \<^verbatim>\<open>makeDockerOptionsDir\<close>,
  \<^verbatim>\<open>setRemoteAuthOptions\<close>, \<^verbatim>\<open>ConfigureAuth\<close>, \<^verbatim>\<open>configureSwarm\<close>, the
  constant \<^verbatim>\<open>drivers.DefaultEngineInstallURL\<close> and the format string
  \<^verbatim>\<open>hostnameTmpl\<close> are not part of the sources at hand. Sections 4.2 and 6 specify them at
  their interface only, so they are parameters here:
  \<^item> \<open>ssh_exec\<close> answers a remote command with an error (\<open>Inl\<close>) or its output, and
    \<open>collab\<close> answers a collaborator call with an error or \<open>None\<close> for nil; both may
    depend on everything that happened before;
  \<^item> \<open>setRemoteAuthOptions\<close> derives the remote-path auth options from the provisioner;
  \<^item> \<open>hostnameTmpl\<close> is \<^verbatim>\<open>fmt.Sprintf(hostnameTmpl, hostname)\<close> as a function of the
    hostname.
  A collaborator reads the provisioner it is handed and does not assign to its fields.
\<close>

record ('a, 's, 'e) env =
  ssh_exec :: "('a, 's, 'e) event list \<Rightarrow> string \<Rightarrow> string + string"
  collab :: "('a, 's, 'e) event list \<Rightarrow> ('a, 's, 'e) event \<Rightarrow> string option"
  setRemoteAuthOptions :: "('a, 's, 'e) AlpineProvisioner \<Rightarrow> 'a"
  DefaultEngineInstallURL :: string
  hostnameTmpl :: "string \<Rightarrow> string"

text \<open>
  The state threaded through every method: the provisioner behind the receiver pointer,
  and the events so far.
\<close>

record ('a, 's, 'e) session =
  prov :: "('a, 's, 'e) AlpineProvisioner"
  trace :: "('a, 's, 'e) event list"

definition collab_call ::
  "('a, 's, 'e) env \<Rightarrow> ('a, 's, 'e) event \<Rightarrow> ('a, 's, 'e) session
    \<Rightarrow> error option \<times> ('a, 's, 'e) session" where
  "collab_call w ev s =
     (map_option External (collab w (trace s) ev), s\<lparr>trace := trace s @ [ev]\<rparr>)"

text \<open>\<^verbatim>\<open>SSHCommand(cmd) (string, error)\<close>: the single remote side effect.\<close>

definition SSHCommand ::
  "('a, 's, 'e) env \<Rightarrow> string \<Rightarrow> ('a, 's, 'e) session
    \<Rightarrow> (error + string) \<times> ('a, 's, 'e) session" where
  "SSHCommand w cmd s =
     (case ssh_exec w (trace s) cmd of
        Inl x \<Rightarrow> (Inl (External x), s\<lparr>trace := trace s @ [SSH cmd]\<rparr>)
      | Inr out \<Rightarrow> (Inr out, s\<lparr>trace := trace s @ [SSH cmd]\<rparr>))"

definition GenericProvisioner_SetHostname ::
  "('a, 's, 'e) env \<Rightarrow> string \<Rightarrow> ('a, 's, 'e) session
    \<Rightarrow> error option \<times> ('a, 's, 'e) session" where
  "GenericProvisioner_SetHostname w hostname s =
     collab_call w (GenericSetHostname (prov s) hostname) s"

definition selectDocker ::
  "('a, 's, 'e) env \<Rightarrow> string \<Rightarrow> ('a, 's, 'e) session
    \<Rightarrow> error option \<times> ('a, 's, 'e) session" where
  "selectDocker w url s = collab_call w (SelectDocker (prov s) url) s"

definition makeDockerOptionsDir ::
  "('a, 's, 'e) env \<Rightarrow> ('a, 's, 'e) session \<Rightarrow> error option \<times> ('a, 's, 'e) session" where
  "makeDockerOptionsDir w s = collab_call w (MakeDockerOptionsDir (prov s)) s"

definition ConfigureAuth ::
  "('a, 's, 'e) env \<Rightarrow> ('a, 's, 'e) session \<Rightarrow> error option \<times> ('a, 's, 'e) session" where
  "ConfigureAuth w s = collab_call w (ConfigureAuthCall (prov s)) s"

definition configureSwarm ::
  "('a, 's, 'e) env \<Rightarrow> 's swarm_options \<Rightarrow> 'a \<Rightarrow> ('a, 's, 'e) session
    \<Rightarrow> error option \<times> ('a, 's, 'e) session" where
  "configureSwarm w swarmOptions authOptions s =
     collab_call w (ConfigureSwarmCall (prov s) swarmOptions authOptions) s"

subsection \<open>alpine.go\<close>

text \<open>
  \<^verbatim>\<open>NewAlpineProvisioner\<close> (lines 21-34). The option fields are not named in the struct
  literal, so they hold Go's zero values: nil slices, empty strings, and \<open>default\<close> for
  the fields declared elsewhere.
\<close>

definition NewAlpineProvisioner ::
  "driver \<Rightarrow> ('a::default, 's::default, 'e::default) AlpineProvisioner" where
  "NewAlpineProvisioner d =
     \<lparr> SSHCommander = d,
       DockerOptionsDir = ''/etc/docker'',
       DaemonOptionsFile = ''/etc/conf.d/docker'',
       OsReleaseID = ''alpine'',
       Packages = [''docker''],
       Driver = d,
       SwarmOptions = \<lparr> swarm_Env = [], swarm_other = default \<rparr>,
       AuthOptions = default,
       EngineOptions = \<lparr> eng_Env = [], eng_StorageDriver = [], eng_InstallURL = [],
                         eng_other = default \<rparr> \<rparr>"

text \<open>\<^verbatim>\<open>String()\<close> (lines 40-42).\<close>

definition String_of :: "('a, 's, 'e) AlpineProvisioner \<Rightarrow> string" where
  "String_of provisioner = ''alpine''"

text \<open>
  \<^verbatim>\<open>upgrade()\<close> (lines 142-156). The switch on \<^verbatim>\<open>DriverName()\<close> has the default
  branch only. The result of the reboot command is dropped.
\<close>

definition upgrade ::
  "('a, 's, 'e) env \<Rightarrow> ('a, 's, 'e) session \<Rightarrow> error option \<times> ('a, 's, 'e) session" where
  "upgrade w s =
     (case DriverName (Driver (prov s)) of
        _ \<Rightarrow>
          (case SSHCommand w ''sudo apk upgrade'' s of
             (Inl err, s1) \<Rightarrow> (Some err, s1)
           | (Inr _, s1) \<Rightarrow>
               (case SSHCommand w ''sudo reboot'' s1 of
                  (_, s2) \<Rightarrow> (None, s2))))"

text \<open>
  \<^verbatim>\<open>Package(name, action)\<close> (lines 54-71). \<^verbatim>\<open>var command string\<close> starts as the empty
  string and the switch has cases for Install and Remove only.
\<close>

definition Package ::
  "('a, 's, 'e) env \<Rightarrow> string \<Rightarrow> PackageAction \<Rightarrow> ('a, 's, 'e) session
    \<Rightarrow> error option \<times> ('a, 's, 'e) session" where
  "Package w name action s =
     (if name = ''docker'' \<and> action = Upgrade then upgrade w s
      else
        let command =
              (case action of
                 Install \<Rightarrow> ''sudo rc-update add '' @ name @ '' boot''
               | Remove \<Rightarrow> ''sudo rc-update del '' @ name @ '' boot''
               | Upgrade \<Rightarrow> '''')
        in (case SSHCommand w command s of
              (Inl err, s1) \<Rightarrow> (Some err, s1)
            | (Inr _, s1) \<Rightarrow> (None, s1)))"

text \<open>\<^verbatim>\<open>SetHostname(hostname)\<close> (lines 125-140).\<close>

definition hosts_cleanup :: string where
  "hosts_cleanup =
     ''sed /127.0.1.1/d /etc/hosts > /tmp/hosts && cat /tmp/hosts | sudo tee /etc/hosts''"

definition SetHostname ::
  "('a, 's, 'e) env \<Rightarrow> string \<Rightarrow> ('a, 's, 'e) session
    \<Rightarrow> error option \<times> ('a, 's, 'e) session" where
  "SetHostname w hostname s =
     (case SSHCommand w hosts_cleanup s of
        (Inl err, s1) \<Rightarrow> (Some err, s1)
      | (Inr _, s1) \<Rightarrow>
          (case GenericProvisioner_SetHostname w hostname s1 of
             (Some err, s2) \<Rightarrow> (Some err, s2)
           | (None, s2) \<Rightarrow>
               (case SSHCommand w (hostnameTmpl w hostname) s2 of
                  (Inl err, s3) \<Rightarrow> (Some err, s3)
                | (Inr _, s3) \<Rightarrow> (None, s3))))"

text \<open>The loop of lines 92-97 over \<^verbatim>\<open>provisioner.Packages\<close>.\<close>

fun install_packages ::
  "('a, 's, 'e) env \<Rightarrow> string list \<Rightarrow> ('a, 's, 'e) session
    \<Rightarrow> error option \<times> ('a, 's, 'e) session" where
  "install_packages w [] s = (None, s)"
| "install_packages w (pkg # pkgs) s =
     (case Package w pkg Install s of
        (Some err, s1) \<Rightarrow> (Some err, s1)
      | (None, s1) \<Rightarrow> install_packages w pkgs s1)"

text \<open>
  \<^verbatim>\<open>Provision\<close>, lines 87-122: everything after the storage driver is resolved.
  \<open>swarmOptions\<close> and \<open>engineOptions\<close> are the function's local copies.
\<close>

definition Provision_steps ::
  "('a, 's, 'e) env \<Rightarrow> 's swarm_options \<Rightarrow> 'e engine_options \<Rightarrow> ('a, 's, 'e) session
    \<Rightarrow> error option \<times> ('a, 's, 'e) session" where
  "Provision_steps w swarmOptions engineOptions s =
     (case SetHostname w (GetMachineName (Driver (prov s))) s of
        (Some err, s1) \<Rightarrow> (Some err, s1)
      | (None, s1) \<Rightarrow>
     (case install_packages w (Packages (prov s1)) s1 of
        (Some err, s2) \<Rightarrow> (Some err, s2)
      | (None, s2) \<Rightarrow>
     (case (if eng_InstallURL engineOptions = DefaultEngineInstallURL w then (None, s2)
            else selectDocker w (eng_InstallURL engineOptions) s2) of
        (Some err, s3) \<Rightarrow> (Some err, s3)
      | (None, s3) \<Rightarrow>
     (case makeDockerOptionsDir w s3 of
        (Some err, s4) \<Rightarrow> (Some err, s4)
      | (None, s4) \<Rightarrow>
     (let s5 = s4\<lparr>prov := (prov s4)\<lparr>AuthOptions := setRemoteAuthOptions w (prov s4)\<rparr>\<rparr>
      in (case ConfigureAuth w s5 of
            (Some err, s6) \<Rightarrow> (Some err, s6)
          | (None, s6) \<Rightarrow>
              configureSwarm w swarmOptions (AuthOptions (prov s6)) s6))))))"

text \<open>
  \<^verbatim>\<open>Provision(swarmOptions, authOptions, engineOptions)\<close> (lines 73-123). The three
  arguments are passed by value; line 79 assigns to the local copy of \<open>swarmOptions\<close>.
  The calls of \<^verbatim>\<open>log.Debugf\<close> have no effect on the provisioner or the remote host and
  are left out.
\<close>

definition Provision ::
  "('a, 's, 'e) env \<Rightarrow> 's swarm_options \<Rightarrow> 'a \<Rightarrow> 'e engine_options \<Rightarrow> ('a, 's, 'e) session
    \<Rightarrow> error option \<times> ('a, 's, 'e) session" where
  "Provision w swarmOptions authOptions engineOptions s =
     (let s1 = s\<lparr>prov := (prov s)\<lparr>SwarmOptions := swarmOptions,
                                  AuthOptions := authOptions,
                                  EngineOptions := engineOptions\<rparr>\<rparr>;
          swarmOptions1 = swarmOptions\<lparr>swarm_Env := eng_Env engineOptions\<rparr>
      in
        if eng_StorageDriver (EngineOptions (prov s1)) = '''' then
          Provision_steps w swarmOptions1 engineOptions
            (s1\<lparr>prov := (prov s1)\<lparr>EngineOptions :=
                    (EngineOptions (prov s1))\<lparr>eng_StorageDriver := ''overlay''\<rparr>\<rparr>\<rparr>)
        else if eng_StorageDriver (EngineOptions (prov s1)) \<noteq> ''overlay'' then
          (Some (Errorf (''Unsupported storage driver: ''
                          @ eng_StorageDriver (EngineOptions (prov s1)))), s1)
        else Provision_steps w swarmOptions1 engineOptions s1)"

subsection \<open>The call of Provision, with the caller's variables\<close>

text \<open>
  Go passes the three option structs by value. To state what a call does to the caller's
  own structs, the variables that hold option structs are kept in a memory, one list per
  struct type, and an address is an index into the list of its type. The \<open>Env\<close> fields
  are slice headers; alpine.go assigns a header (line 79) and never an element of a slice,
  so the strings a header denotes do not change during the call and the field holds them
  directly.
\<close>

record ('a, 's, 'e) memory =
  swarm_vars :: "'s swarm_options list"
  auth_vars :: "'a list"
  engine_vars :: "'e engine_options list"

text \<open>
  \<^verbatim>\<open>Provision\<close> (lines 73-123) once more, with its three parameters as variables in the
  memory: \<open>swarmOptions\<close>, \<open>authOptions\<close> and \<open>engineOptions\<close> are their addresses.
  Lines 76-78 read them, line 79 writes the variable \<open>swarmOptions\<close>, lines 99 and 121
  read \<open>engineOptions\<close> and \<open>swarmOptions\<close> again. Nothing between line 79 and those
  reads can reach the parameters, so they are read when the remaining steps start. The
  result is \<open>None\<close> if a parameter is not an allocated variable.
\<close>

definition Provision_body ::
  "('a, 's, 'e) env \<Rightarrow> nat \<Rightarrow> nat \<Rightarrow> nat \<Rightarrow> ('a, 's, 'e) memory \<times> ('a, 's, 'e) session
    \<Rightarrow> (error option \<times> ('a, 's, 'e) memory \<times> ('a, 's, 'e) session) option" where
  "Provision_body w swarmOptions authOptions engineOptions ms =
     (case ms of (mem, s) \<Rightarrow>
        if swarmOptions < length (swarm_vars mem) \<and> authOptions < length (auth_vars mem)
           \<and> engineOptions < length (engine_vars mem)
        then
          let s1 = s\<lparr>prov := (prov s)\<lparr>SwarmOptions := swarm_vars mem ! swarmOptions,
                                      AuthOptions := auth_vars mem ! authOptions,
                                      EngineOptions := engine_vars mem ! engineOptions\<rparr>\<rparr>;
              mem1 = mem\<lparr>swarm_vars := (swarm_vars mem)
                       [swarmOptions := (swarm_vars mem ! swarmOptions)
                          \<lparr>swarm_Env := eng_Env (engine_vars mem ! engineOptions)\<rparr>]\<rparr>
          in
            if eng_StorageDriver (EngineOptions (prov s1)) = '''' then
              (case Provision_steps w (swarm_vars mem1 ! swarmOptions)
                      (engine_vars mem1 ! engineOptions)
                      (s1\<lparr>prov := (prov s1)\<lparr>EngineOptions :=
                         (EngineOptions (prov s1))\<lparr>eng_StorageDriver := ''overlay''\<rparr>\<rparr>\<rparr>) of
                 (err, s2) \<Rightarrow> Some (err, mem1, s2))
            else if eng_StorageDriver (EngineOptions (prov s1)) \<noteq> ''overlay'' then
              Some (Some (Errorf (''Unsupported storage driver: ''
                                   @ eng_StorageDriver (EngineOptions (prov s1)))), mem1, s1)
            else
              (case Provision_steps w (swarm_vars mem1 ! swarmOptions)
                      (engine_vars mem1 ! engineOptions) s1 of
                 (err, s2) \<Rightarrow> Some (err, mem1, s2))
        else None)"

text \<open>
  The call \<^verbatim>\<open>provisioner.Provision(x, y, z)\<close> where \<open>x\<close>, \<open>y\<close>, \<open>z\<close> are the
  addresses of the caller's variables: the three parameters are allocated at the end of
  the memory, the arguments are copied into them, and the body runs. The parameters are
  left in the memory when the call returns, so that they can be looked at. The result is
  \<open>None\<close> if an argument is not an allocated variable.
\<close>

definition Provision_call ::
  "('a, 's, 'e) env \<Rightarrow> nat \<Rightarrow> nat \<Rightarrow> nat \<Rightarrow> ('a, 's, 'e) memory \<times> ('a, 's, 'e) session
    \<Rightarrow> (error option \<times> ('a, 's, 'e) memory \<times> ('a, 's, 'e) session) option" where
  "Provision_call w x y z ms =
     (case ms of (mem, s) \<Rightarrow>
        if x < length (swarm_vars mem) \<and> y < length (auth_vars mem)
           \<and> z < length (engine_vars mem)
        then
          Provision_body w (length (swarm_vars mem)) (length (auth_vars mem))
            (length (engine_vars mem))
            (mem\<lparr>swarm_vars := swarm_vars mem @ [swarm_vars mem ! x],
                  auth_vars := auth_vars mem @ [auth_vars mem ! y],
                  engine_vars := engine_vars mem @ [engine_vars mem ! z]\<rparr>, s)
        else None)"

subsection \<open>The registry\<close>

text \<open>
  Modelled from the spec: \<^verbatim>\<open>Register\<close>, \<^verbatim>\<open>RegisteredProvisioner\<close> and the lookup
  are not part of the sources at hand. Sections 3 and 6 describe a registry entry as a pair of
  a symbolic name and a factory, \<^verbatim>\<open>Register(name, factory)\<close> as adding one, and a
  lookup by name that returns the factory. The table is a map from names to entries,
  passed explicitly.
\<close>

record ('a, 's, 'e) RegisteredProvisioner =
  New :: "driver \<Rightarrow> ('a, 's, 'e) AlpineProvisioner"

definition Register ::
  "string \<Rightarrow> ('a, 's, 'e) RegisteredProvisioner
    \<Rightarrow> (string \<rightharpoonup> ('a, 's, 'e) RegisteredProvisioner)
    \<Rightarrow> (string \<rightharpoonup> ('a, 's, 'e) RegisteredProvisioner)" where
  "Register name p provisioners = provisioners(name \<mapsto> p)"

definition lookup_provisioner ::
  "string \<Rightarrow> (string \<rightharpoonup> ('a, 's, 'e) RegisteredProvisioner)
    \<Rightarrow> ('a, 's, 'e) RegisteredProvisioner option" where
  "lookup_provisioner name provisioners = provisioners name"

text \<open>\<^verbatim>\<open>init()\<close> of alpine.go (lines 15-19).\<close>

definition init_alpine ::
  "(string \<rightharpoonup> ('a::default, 's::default, 'e::default) RegisteredProvisioner)
    \<Rightarrow> (string \<rightharpoonup> ('a, 's, 'e) RegisteredProvisioner)" where
  "init_alpine provisioners =
     Register ''AlpineLinux'' \<lparr> New = NewAlpineProvisioner \<rparr> provisioners"

subsection \<open>The sequence of steps, as the specification words it\<close>

text \<open>
  The specification describes \<^verbatim>\<open>Provision\<close> as a fixed list of steps run in order until
  the first one fails. This is that description, written independently of the code above
  and compared with it below. \<open>response\<close> is the Go error a step hands back, given
  everything that happened before it; \<open>spec_run\<close> runs a list of steps fail-fast and
  returns the first error and the events issued.
\<close>

definition response ::
  "('a, 's, 'e) env \<Rightarrow> ('a, 's, 'e) event list \<Rightarrow> ('a, 's, 'e) event \<Rightarrow> error option" where
  "response w tr ev =
     (case ev of
        SSH c \<Rightarrow> (case ssh_exec w tr c of Inl x \<Rightarrow> Some (External x) | Inr out \<Rightarrow> None)
      | _ \<Rightarrow> map_option External (collab w tr ev))"

fun spec_run ::
  "('a, 's, 'e) env \<Rightarrow> ('a, 's, 'e) event list \<Rightarrow> ('a, 's, 'e) event list
    \<Rightarrow> error option \<times> ('a, 's, 'e) event list" where
  "spec_run w [] tr = (None, tr)"
| "spec_run w (ev # evs) tr =
     (case response w tr ev of
        Some err \<Rightarrow> (Some err, tr @ [ev])
      | None \<Rightarrow> spec_run w evs (tr @ [ev]))"

definition exec_plan ::
  "('a, 's, 'e) env \<Rightarrow> ('a, 's, 'e) event list \<Rightarrow> ('a, 's, 'e) session
    \<Rightarrow> error option \<times> ('a, 's, 'e) session" where
  "exec_plan w evs s = (case spec_run w evs (trace s) of (r, tr) \<Rightarrow> (r, s\<lparr>trace := tr\<rparr>))"

text \<open>Run \<open>f\<close> only if what came before returned nil.\<close>

definition and_then ::
  "error option \<times> ('a, 's, 'e) session
    \<Rightarrow> (('a, 's, 'e) session \<Rightarrow> error option \<times> ('a, 's, 'e) session)
    \<Rightarrow> error option \<times> ('a, 's, 'e) session" where
  "and_then m f = (case m of (Some err, s1) \<Rightarrow> (Some err, s1) | (None, s1) \<Rightarrow> f s1)"

text \<open>
  Steps 3 to 6 of section 4.4, for a provisioner \<open>p\<close> whose options are already stored:
  hostname (cleanup, generic base, persistence), one install per package, engine selection
  unless the install URL is the default, options directory.
\<close>

definition spec_head ::
  "('a, 's, 'e) env \<Rightarrow> string \<Rightarrow> ('a, 's, 'e) AlpineProvisioner \<Rightarrow> ('a, 's, 'e) event list" where
  "spec_head w url p =
     [SSH hosts_cleanup,
      GenericSetHostname p (GetMachineName (Driver p)),
      SSH (hostnameTmpl w (GetMachineName (Driver p)))]
     @ map (\<lambda>pkg. SSH (''sudo rc-update add '' @ pkg @ '' boot'')) (Packages p)
     @ (if url = DefaultEngineInstallURL w then [] else [SelectDocker p url])
     @ [MakeDockerOptionsDir p]"

text \<open>
  Steps 7 to 9: the auth options are replaced by the derived ones, then the auth and the
  swarm collaborators are called.
\<close>

definition spec_tail ::
  "('a, 's, 'e) env \<Rightarrow> 's swarm_options \<Rightarrow> ('a, 's, 'e) AlpineProvisioner
    \<Rightarrow> ('a, 's, 'e) event list" where
  "spec_tail w swarmOptions p =
     [ConfigureAuthCall (p\<lparr>AuthOptions := setRemoteAuthOptions w p\<rparr>),
      ConfigureSwarmCall (p\<lparr>AuthOptions := setRemoteAuthOptions w p\<rparr>) swarmOptions
        (setRemoteAuthOptions w p)]"

definition tail_run ::
  "('a, 's, 'e) env \<Rightarrow> 's swarm_options \<Rightarrow> ('a, 's, 'e) AlpineProvisioner
    \<Rightarrow> ('a, 's, 'e) session \<Rightarrow> error option \<times> ('a, 's, 'e) session" where
  "tail_run w swarmOptions p s =
     exec_plan w (spec_tail w swarmOptions p)
       (s\<lparr>prov := p\<lparr>AuthOptions := setRemoteAuthOptions w p\<rparr>\<rparr>)"

text \<open>
  The whole list for a call \<^verbatim>\<open>Provision(swarmOptions, authOptions, engineOptions)\<close> on
  provisioner \<open>p\<close>, once the storage driver is resolved to \<^verbatim>\<open>overlay\<close>.
\<close>

definition spec_plan ::
  "('a, 's, 'e) env \<Rightarrow> 's swarm_options \<Rightarrow> 'a \<Rightarrow> 'e engine_options
    \<Rightarrow> ('a, 's, 'e) AlpineProvisioner \<Rightarrow> ('a, 's, 'e) event list" where
  "spec_plan w swarmOptions authOptions engineOptions p =
     (let p1 = p\<lparr>SwarmOptions := swarmOptions,
                 AuthOptions := authOptions,
                 EngineOptions := engineOptions\<lparr>eng_StorageDriver := ''overlay''\<rparr>\<rparr>
      in spec_head w (eng_InstallURL engineOptions) p1
         @ spec_tail w (swarmOptions\<lparr>swarm_Env := eng_Env engineOptions\<rparr>) p1)"

subsection \<open>A stub driver and executor\<close>

text \<open>
  Concrete inputs on which the theorems below are instantiated: a driver for a machine
  named \<^verbatim>\<open>box\<close>, a fresh Alpine provisioner whose auth options are a certificate
  directory, and an executor that fails exactly the commands listed in \<open>bad\<close>, with
  collaborators that fail exactly when \<open>bad_collab\<close> says so.
\<close>

definition demo_driver :: driver where
  "demo_driver = \<lparr> GetMachineName = ''box'', DriverName = ''stub'' \<rparr>"

definition demo_prov :: "(string, unit, unit) AlpineProvisioner" where
  "demo_prov =
     \<lparr> SSHCommander = demo_driver,
       DockerOptionsDir = ''/etc/docker'',
       DaemonOptionsFile = ''/etc/conf.d/docker'',
       OsReleaseID = ''alpine'',
       Packages = [''docker''],
       Driver = demo_driver,
       SwarmOptions = \<lparr> swarm_Env = [], swarm_other = () \<rparr>,
       AuthOptions = '''',
       EngineOptions = \<lparr> eng_Env = [], eng_StorageDriver = '''', eng_InstallURL = '''',
                         eng_other = () \<rparr> \<rparr>"

definition demo_session :: "(string, unit, unit) session" where
  "demo_session = \<lparr> prov = demo_prov, trace = [] \<rparr>"

definition demo_env ::
  "string list \<Rightarrow> ((string, unit, unit) event \<Rightarrow> bool) \<Rightarrow> (string, unit, unit) env" where
  "demo_env bad bad_collab =
     \<lparr> ssh_exec = (\<lambda>tr cmd. if cmd \<in> set bad then Inl ''exit status 1'' else Inr ''''),
       collab = (\<lambda>tr ev. if bad_collab ev then Some ''collaborator failed'' else None),
       setRemoteAuthOptions = (\<lambda>p. DockerOptionsDir p),
       DefaultEngineInstallURL = ''https://get.docker.com'',
       hostnameTmpl = (\<lambda>h. ''sudo setup-hostname '' @ h) \<rparr>"

definition no_failure :: "(string, unit, unit) event \<Rightarrow> bool" where
  "no_failure ev = False"

definition generic_hostname_fails :: "(string, unit, unit) event \<Rightarrow> bool" where
  "generic_hostname_fails ev = (case ev of GenericSetHostname p h \<Rightarrow> True | _ \<Rightarrow> False)"

definition demo_swarm :: "unit swarm_options" where
  "demo_swarm = \<lparr> swarm_Env = [''SWARM=1''], swarm_other = () \<rparr>"

definition demo_engine :: "string \<Rightarrow> string \<Rightarrow> unit engine_options" where
  "demo_engine sd url =
     \<lparr> eng_Env = [''HTTP_PROXY=p''], eng_StorageDriver = sd, eng_InstallURL = url,
       eng_other = () \<rparr>"

text \<open>A caller whose three variables hold the structs it is about to pass.\<close>

definition demo_memory :: "(string, unit, unit) memory" where
  "demo_memory =
     \<lparr> swarm_vars = [demo_swarm],
       auth_vars = [''/local/certs''],
       engine_vars = [demo_engine '''' ''https://get.docker.com''] \<rparr>"

section \<open>The code runs the specified sequence\<close>

lemmas demo_defs = demo_driver_def demo_prov_def demo_session_def demo_env_def demo_swarm_def
  demo_engine_def no_failure_def generic_hostname_fails_def

lemmas code_defs = Provision_def Provision_steps_def SetHostname_def Package_def upgrade_def
  SSHCommand_def GenericProvisioner_SetHostname_def selectDocker_def makeDockerOptionsDir_def
  ConfigureAuth_def configureSwarm_def collab_call_def hosts_cleanup_def

lemma exec_plan_Nil: "exec_plan w [] s = (None, s)"
  by (simp add: exec_plan_def)

lemma exec_plan_Cons:
  "exec_plan w (ev # evs) s =
     (case response w (trace s) ev of
        Some err \<Rightarrow> (Some err, s\<lparr>trace := trace s @ [ev]\<rparr>)
      | None \<Rightarrow> exec_plan w evs (s\<lparr>trace := trace s @ [ev]\<rparr>))"
  by (simp add: exec_plan_def split: option.splits prod.splits)

lemma exec_plan_append:
  "exec_plan w (xs @ ys) s =
     (case exec_plan w xs s of
        (Some err, s1) \<Rightarrow> (Some err, s1)
      | (None, s1) \<Rightarrow> exec_plan w ys s1)"
proof (induction xs arbitrary: s)
  case Nil
  show ?case by (simp add: exec_plan_Nil)
next
  case (Cons ev xs)
  show ?case
    by (cases "response w (trace s) ev") (simp_all add: exec_plan_Cons Cons.IH)
qed

lemma exec_plan_prov: "prov (snd (exec_plan w evs s)) = prov s"
  by (simp add: exec_plan_def split: prod.splits)

lemma ssh_step_plan:
  "(case SSHCommand w c s of (Inl err, s1) \<Rightarrow> (Some err, s1) | (Inr out, s1) \<Rightarrow> (None, s1))
     = exec_plan w [SSH c] s"
  by (simp add: SSHCommand_def exec_plan_Cons exec_plan_Nil response_def split: sum.splits)

lemma Package_Install_plan:
  "Package w name Install s = exec_plan w [SSH (''sudo rc-update add '' @ name @ '' boot'')] s"
  by (simp add: Package_def ssh_step_plan)

lemma install_packages_plan:
  "install_packages w pkgs s =
     exec_plan w (map (\<lambda>pkg. SSH (''sudo rc-update add '' @ pkg @ '' boot'')) pkgs) s"
proof (induction pkgs arbitrary: s)
  case Nil
  show ?case by (simp add: exec_plan_Nil)
next
  case (Cons pkg pkgs)
  show ?case
    by (cases "response w (trace s) (SSH (''sudo rc-update add '' @ pkg @ '' boot''))")
      (simp_all add: Package_Install_plan exec_plan_Cons exec_plan_Nil Cons.IH)
qed

lemma SetHostname_plan:
  "SetHostname w hostname s =
     exec_plan w [SSH hosts_cleanup, GenericSetHostname (prov s) hostname,
                  SSH (hostnameTmpl w hostname)] s"
  by (simp add: SetHostname_def SSHCommand_def GenericProvisioner_SetHostname_def
      collab_call_def exec_plan_Cons exec_plan_Nil response_def
      split: sum.splits option.splits)

lemma exec_plan_fst: "fst (exec_plan w evs s) = fst (spec_run w evs (trace s))"
  by (simp add: exec_plan_def split: prod.splits)

lemma exec_plan_trace: "trace (snd (exec_plan w evs s)) = snd (spec_run w evs (trace s))"
  by (simp add: exec_plan_def split: prod.splits)

lemma exec_plan_eq: "exec_plan w evs s = (r, s1) \<Longrightarrow> prov s1 = prov s"
  using exec_plan_prov [of w evs s] by simp

lemma collab_step_plan:
  "(\<And>c. ev \<noteq> SSH c) \<Longrightarrow> collab_call w ev s = exec_plan w [ev] s"
  by (cases ev) (auto simp add: collab_call_def exec_plan_Cons exec_plan_Nil response_def
      split: option.splits)

lemma exec_plan_append_then:
  "exec_plan w (xs @ ys) s = and_then (exec_plan w xs s) (exec_plan w ys)"
  by (simp add: exec_plan_append and_then_def)

lemma and_then_assoc: "and_then (and_then m f) g = and_then m (\<lambda>s. and_then (f s) g)"
  by (simp add: and_then_def split: prod.splits option.splits)

lemma and_then_cong_prov:
  assumes "\<And>s1. prov s1 = prov s \<Longrightarrow> f s1 = g s1"
  shows "and_then (exec_plan w evs s) f = and_then (exec_plan w evs s) g"
proof (cases "exec_plan w evs s")
  case (Pair r s1)
  then have "prov s1 = prov s" by (rule exec_plan_eq)
  with assms Pair show ?thesis by (simp add: and_then_def split: option.splits)
qed

lemma seq_plan:
  assumes f: "\<And>s. f s = exec_plan w (F (prov s)) s"
    and g: "\<And>s. g s = and_then (exec_plan w (G (prov s)) s) (h (prov s))"
  shows "and_then (f s) g = and_then (exec_plan w (F (prov s) @ G (prov s)) s) (h (prov s))"
proof -
  have "and_then (f s) g = and_then (exec_plan w (F (prov s)) s) g"
    by (simp add: f)
  also have "\<dots> = and_then (exec_plan w (F (prov s)) s)
                     (\<lambda>s1. and_then (exec_plan w (G (prov s)) s1) (h (prov s)))"
    by (rule and_then_cong_prov) (simp add: g)
  also have "\<dots> = and_then (exec_plan w (F (prov s) @ G (prov s)) s) (h (prov s))"
    by (simp add: exec_plan_append_then and_then_assoc)
  finally show ?thesis .
qed

lemma Provision_steps_then:
  "Provision_steps w swarmOptions engineOptions s =
     and_then (SetHostname w (GetMachineName (Driver (prov s))) s)
       (\<lambda>s1. and_then (install_packages w (Packages (prov s1)) s1)
       (\<lambda>s2. and_then (if eng_InstallURL engineOptions = DefaultEngineInstallURL w
                        then (None, s2)
                        else selectDocker w (eng_InstallURL engineOptions) s2)
       (\<lambda>s3. and_then (makeDockerOptionsDir w s3)
       (\<lambda>s4. tail_run w swarmOptions (prov s4) s4))))"
  by (simp add: Provision_steps_def and_then_def tail_run_def spec_tail_def Let_def
      ConfigureAuth_def configureSwarm_def collab_call_def exec_plan_Cons exec_plan_Nil
      response_def
      split: prod.splits option.splits)

lemma Provision_steps_plan:
  "Provision_steps w swarmOptions engineOptions s =
     and_then (exec_plan w (spec_head w (eng_InstallURL engineOptions) (prov s)) s)
       (tail_run w swarmOptions (prov s))"
proof -
  let ?url = "eng_InstallURL engineOptions"
  let ?h = "tail_run w swarmOptions"
  let ?F1 = "\<lambda>p. [SSH hosts_cleanup, GenericSetHostname p (GetMachineName (Driver p)),
                    SSH (hostnameTmpl w (GetMachineName (Driver p)))]"
  let ?F2 = "\<lambda>p. map (\<lambda>pkg. SSH (''sudo rc-update add '' @ pkg @ '' boot'')) (Packages p)"
  let ?F3 = "\<lambda>p. if ?url = DefaultEngineInstallURL w then [] else [SelectDocker p ?url]"
  let ?F4 = "\<lambda>p. [MakeDockerOptionsDir p]"
  let ?f3 = "\<lambda>s2. if ?url = DefaultEngineInstallURL w then (None, s2)
                   else selectDocker w ?url s2"
  let ?g4 = "\<lambda>s4. tail_run w swarmOptions (prov s4) s4"
  let ?g3 = "\<lambda>s3. and_then (makeDockerOptionsDir w s3) ?g4"
  let ?g2 = "\<lambda>s2. and_then (?f3 s2) ?g3"
  let ?g1 = "\<lambda>s1. and_then (install_packages w (Packages (prov s1)) s1) ?g2"
  have f1: "SetHostname w (GetMachineName (Driver (prov t))) t = exec_plan w (?F1 (prov t)) t"
    for t by (rule SetHostname_plan)
  have f2: "install_packages w (Packages (prov t)) t = exec_plan w (?F2 (prov t)) t"
    for t by (rule install_packages_plan)
  have f3: "?f3 t = exec_plan w (?F3 (prov t)) t" for t
    by (simp add: selectDocker_def collab_step_plan exec_plan_Nil)
  have f4: "makeDockerOptionsDir w t = exec_plan w (?F4 (prov t)) t" for t
    by (simp add: makeDockerOptionsDir_def collab_step_plan)
  have g3: "?g3 t = and_then (exec_plan w (?F4 (prov t)) t) (?h (prov t))" for t
    unfolding f4 by (rule and_then_cong_prov) simp
  have g2: "?g2 t = and_then (exec_plan w (?F3 (prov t) @ ?F4 (prov t)) t) (?h (prov t))" for t
    by (rule seq_plan [where f = ?f3 and F = ?F3 and g = ?g3 and G = ?F4 and h = ?h,
          OF f3 g3])
  have g1: "?g1 t = and_then (exec_plan w (?F2 (prov t) @ ?F3 (prov t) @ ?F4 (prov t)) t)
                      (?h (prov t))" for t
    by (rule seq_plan [where f = "\<lambda>t. install_packages w (Packages (prov t)) t" and F = ?F2
          and g = ?g2 and G = "\<lambda>p. ?F3 p @ ?F4 p" and h = ?h, OF f2 g2])
  have "Provision_steps w swarmOptions engineOptions s
          = and_then (SetHostname w (GetMachineName (Driver (prov s))) s) ?g1"
    by (rule Provision_steps_then)
  also have "\<dots> = and_then (exec_plan w (?F1 (prov s) @ ?F2 (prov s) @ ?F3 (prov s)
                                          @ ?F4 (prov s)) s) (?h (prov s))"
    by (rule seq_plan [where f = "\<lambda>t. SetHostname w (GetMachineName (Driver (prov t))) t"
          and F = ?F1 and g = ?g1 and G = "\<lambda>p. ?F2 p @ ?F3 p @ ?F4 p" and h = ?h,
          OF f1 g1])
  finally show ?thesis by (simp add: spec_head_def)
qed

lemma spec_run_append:
  "spec_run w (xs @ ys) tr =
     (case spec_run w xs tr of
        (Some err, tr1) \<Rightarrow> (Some err, tr1)
      | (None, tr1) \<Rightarrow> spec_run w ys tr1)"
  by (induction xs arbitrary: tr) (simp_all split: option.splits)

lemma tail_run_fst:
  "fst (tail_run w swarmOptions p s) = fst (spec_run w (spec_tail w swarmOptions p) (trace s))"
  by (simp add: tail_run_def exec_plan_fst)

lemma tail_run_trace:
  "trace (snd (tail_run w swarmOptions p s))
     = snd (spec_run w (spec_tail w swarmOptions p) (trace s))"
  by (simp add: tail_run_def exec_plan_trace)

lemma tail_run_prov:
  "prov (snd (tail_run w swarmOptions p s)) = p\<lparr>AuthOptions := setRemoteAuthOptions w p\<rparr>"
  by (simp add: tail_run_def exec_plan_prov)

lemma Provision_steps_fst:
  "fst (Provision_steps w swarmOptions engineOptions s)
     = fst (spec_run w (spec_head w (eng_InstallURL engineOptions) (prov s)
                        @ spec_tail w swarmOptions (prov s)) (trace s))"
proof (cases "exec_plan w (spec_head w (eng_InstallURL engineOptions) (prov s)) s")
  case (Pair r s1)
  then have "spec_run w (spec_head w (eng_InstallURL engineOptions) (prov s)) (trace s)
               = (r, trace s1)"
    by (auto simp add: exec_plan_def split: prod.splits)
  with Pair show ?thesis
    by (simp add: Provision_steps_plan and_then_def spec_run_append tail_run_fst
        split: option.splits)
qed

lemma Provision_steps_trace:
  "trace (snd (Provision_steps w swarmOptions engineOptions s))
     = snd (spec_run w (spec_head w (eng_InstallURL engineOptions) (prov s)
                        @ spec_tail w swarmOptions (prov s)) (trace s))"
proof (cases "exec_plan w (spec_head w (eng_InstallURL engineOptions) (prov s)) s")
  case (Pair r s1)
  then have "spec_run w (spec_head w (eng_InstallURL engineOptions) (prov s)) (trace s)
               = (r, trace s1)"
    by (auto simp add: exec_plan_def split: prod.splits)
  with Pair show ?thesis
    by (simp add: Provision_steps_plan and_then_def spec_run_append tail_run_trace
        split: option.splits)
qed

lemma Provision_steps_SwarmOptions:
  "SwarmOptions (prov (snd (Provision_steps w swarmOptions engineOptions s)))
     = SwarmOptions (prov s)"
proof (cases "exec_plan w (spec_head w (eng_InstallURL engineOptions) (prov s)) s")
  case (Pair r s1)
  then have "prov s1 = prov s" by (rule exec_plan_eq)
  with Pair show ?thesis
    by (simp add: Provision_steps_plan and_then_def tail_run_prov split: option.splits)
qed

lemma Provision_steps_EngineOptions:
  "EngineOptions (prov (snd (Provision_steps w swarmOptions engineOptions s)))
     = EngineOptions (prov s)"
proof (cases "exec_plan w (spec_head w (eng_InstallURL engineOptions) (prov s)) s")
  case (Pair r s1)
  then have "prov s1 = prov s" by (rule exec_plan_eq)
  with Pair show ?thesis
    by (simp add: Provision_steps_plan and_then_def tail_run_prov split: option.splits)
qed

lemma spec_run_all_ok:
  assumes "\<And>tr c. \<exists>out. ssh_exec w tr c = Inr out"
    and "\<And>tr ev. collab w tr ev = None"
  shows "spec_run w evs tr = (None, tr @ evs)"
proof (induction evs arbitrary: tr)
  case Nil
  show ?case by simp
next
  case (Cons ev evs)
  have "response w tr ev = None"
  proof (cases ev)
    case (SSH c)
    from assms(1) obtain out where "ssh_exec w tr c = Inr out" by blast
    with SSH show ?thesis by (simp add: response_def)
  qed (simp_all add: response_def assms(2))
  then show ?case by (simp add: Cons.IH)
qed

lemma response_External: "response w tr ev = Some err \<Longrightarrow> \<exists>x. err = External x"
  by (cases ev) (auto simp add: response_def split: sum.splits)

lemma spec_run_External: "spec_run w evs tr = (Some err, tr1) \<Longrightarrow> \<exists>x. err = External x"
proof (induction evs arbitrary: tr)
  case Nil
  then show ?case by simp
next
  case (Cons ev evs)
  then show ?case
    by (cases "response w tr ev") (auto dest: response_External)
qed

lemma spec_run_Some:
  "spec_run w evs tr = (Some err, tr1) \<Longrightarrow>
     \<exists>k<length evs. tr1 = tr @ take (Suc k) evs
        \<and> response w (tr @ take k evs) (evs ! k) = Some err
        \<and> (\<forall>j<k. response w (tr @ take j evs) (evs ! j) = None)"
proof (induction evs arbitrary: tr)
  case Nil
  then show ?case by simp
next
  case (Cons ev evs)
  show ?case
  proof (cases "response w tr ev")
    case (Some e)
    with Cons.prems have "err = e" "tr1 = tr @ [ev]" by simp_all
    with Some have "tr1 = tr @ take (Suc 0) (ev # evs)
        \<and> response w (tr @ take 0 (ev # evs)) ((ev # evs) ! 0) = Some err
        \<and> (\<forall>j<0. response w (tr @ take j (ev # evs)) ((ev # evs) ! j) = None)"
      by simp
    then show ?thesis by blast
  next
    case None
    with Cons.prems have "spec_run w evs (tr @ [ev]) = (Some err, tr1)" by simp
    from Cons.IH [OF this] obtain k where k: "k < length evs"
      "tr1 = (tr @ [ev]) @ take (Suc k) evs"
      "response w ((tr @ [ev]) @ take k evs) (evs ! k) = Some err"
      "\<forall>j<k. response w ((tr @ [ev]) @ take j evs) (evs ! j) = None"
      by blast
    have "\<forall>j<Suc k. response w (tr @ take j (ev # evs)) ((ev # evs) ! j) = None"
    proof (intro allI impI)
      fix j assume "j < Suc k"
      show "response w (tr @ take j (ev # evs)) ((ev # evs) ! j) = None"
      proof (cases j)
        case 0
        with None show ?thesis by simp
      next
        case (Suc i)
        with \<open>j < Suc k\<close> k(4) show ?thesis by simp
      qed
    qed
    with k(1-3) have "Suc k < length (ev # evs) \<and> tr1 = tr @ take (Suc (Suc k)) (ev # evs)
        \<and> response w (tr @ take (Suc k) (ev # evs)) ((ev # evs) ! Suc k) = Some err
        \<and> (\<forall>j<Suc k. response w (tr @ take j (ev # evs)) ((ev # evs) ! j) = None)"
      by simp
    then show ?thesis by blast
  qed
qed

lemma spec_run_prefix: "\<exists>k\<le>length evs. snd (spec_run w evs tr) = tr @ take k evs"
proof (induction evs arbitrary: tr)
  case Nil
  show ?case by simp
next
  case (Cons ev evs)
  show ?case
  proof (cases "response w tr ev")
    case (Some e)
    then have "snd (spec_run w (ev # evs) tr) = tr @ take (Suc 0) (ev # evs)" by simp
    then show ?thesis by (intro exI [of _ "Suc 0"]) simp
  next
    case None
    from Cons.IH [of "tr @ [ev]"] obtain k where
      "k \<le> length evs" "snd (spec_run w evs (tr @ [ev])) = (tr @ [ev]) @ take k evs"
      by blast
    with None show ?thesis by (intro exI [of _ "Suc k"]) simp
  qed
qed

lemma Provision_unsupported:
  assumes "eng_StorageDriver engineOptions \<noteq> ''''"
    and "eng_StorageDriver engineOptions \<noteq> ''overlay''"
  shows "Provision w swarmOptions authOptions engineOptions s =
     (Some (Errorf (''Unsupported storage driver: '' @ eng_StorageDriver engineOptions)),
      s\<lparr>prov := (prov s)\<lparr>SwarmOptions := swarmOptions, AuthOptions := authOptions,
                          EngineOptions := engineOptions\<rparr>\<rparr>)"
  using assms by (simp add: Provision_def)

lemma Provision_supported:
  assumes "eng_StorageDriver engineOptions = '''' \<or> eng_StorageDriver engineOptions = ''overlay''"
  shows "Provision w swarmOptions authOptions engineOptions s =
     Provision_steps w (swarmOptions\<lparr>swarm_Env := eng_Env engineOptions\<rparr>) engineOptions
       (s\<lparr>prov := (prov s)\<lparr>SwarmOptions := swarmOptions, AuthOptions := authOptions,
             EngineOptions := engineOptions\<lparr>eng_StorageDriver := ''overlay''\<rparr>\<rparr>\<rparr>)"
proof (cases "eng_StorageDriver engineOptions = ''''")
  case True
  then show ?thesis by (simp add: Provision_def Let_def)
next
  case False
  with assms have sd: "eng_StorageDriver engineOptions = ''overlay''" by simp
  then have eq: "engineOptions\<lparr>eng_StorageDriver := ''overlay''\<rparr> = engineOptions"
    by (cases engineOptions) simp
  have "Provision w swarmOptions authOptions engineOptions s =
     Provision_steps w (swarmOptions\<lparr>swarm_Env := eng_Env engineOptions\<rparr>) engineOptions
       (s\<lparr>prov := (prov s)\<lparr>SwarmOptions := swarmOptions, AuthOptions := authOptions,
             EngineOptions := engineOptions\<rparr>\<rparr>)"
    using sd by (simp add: Provision_def Let_def)
  then show ?thesis unfolding eq .
qed

lemma Provision_supported_fst:
  assumes "eng_StorageDriver engineOptions = '''' \<or> eng_StorageDriver engineOptions = ''overlay''"
  shows "fst (Provision w swarmOptions authOptions engineOptions s) =
     fst (spec_run w (spec_plan w swarmOptions authOptions engineOptions (prov s)) (trace s))"
  by (simp add: Provision_supported [OF assms] Provision_steps_fst spec_plan_def Let_def)

lemma Provision_supported_trace:
  assumes "eng_StorageDriver engineOptions = '''' \<or> eng_StorageDriver engineOptions = ''overlay''"
  shows "trace (snd (Provision w swarmOptions authOptions engineOptions s)) =
     snd (spec_run w (spec_plan w swarmOptions authOptions engineOptions (prov s)) (trace s))"
  by (simp add: Provision_supported [OF assms] Provision_steps_trace spec_plan_def Let_def)

lemma Provision_SwarmOptions:
  "SwarmOptions (prov (snd (Provision w swarmOptions authOptions engineOptions s)))
     = swarmOptions"
proof (cases "eng_StorageDriver engineOptions = ''''
              \<or> eng_StorageDriver engineOptions = ''overlay''")
  case True
  then show ?thesis by (simp add: Provision_supported Provision_steps_SwarmOptions)
next
  case False
  then show ?thesis by (simp add: Provision_unsupported)
qed

lemma Provision_swarm_call:
  assumes "ConfigureSwarmCall p so ao
             \<in> set (drop (length (trace s))
                      (trace (snd (Provision w swarmOptions authOptions engineOptions s))))"
  shows "so = swarmOptions\<lparr>swarm_Env := eng_Env engineOptions\<rparr>
         \<and> SwarmOptions p = swarmOptions"
proof (cases "eng_StorageDriver engineOptions = ''''
              \<or> eng_StorageDriver engineOptions = ''overlay''")
  case True
  let ?plan = "spec_plan w swarmOptions authOptions engineOptions (prov s)"
  from spec_run_prefix [of ?plan w "trace s"] obtain k where
    "snd (spec_run w ?plan (trace s)) = trace s @ take k ?plan" by blast
  with assms True have "ConfigureSwarmCall p so ao \<in> set (take k ?plan)"
    by (simp add: Provision_supported_trace)
  then have "ConfigureSwarmCall p so ao \<in> set ?plan" by (rule in_set_takeD)
  then show ?thesis
    by (auto simp add: spec_plan_def spec_head_def spec_tail_def Let_def split: if_splits)
next
  case False
  with assms show ?thesis by (simp add: Provision_unsupported)
qed

lemma spec_run_None:
  "spec_run w evs tr = (None, tr1) \<Longrightarrow>
     tr1 = tr @ evs \<and> (\<forall>j<length evs. response w (tr @ take j evs) (evs ! j) = None)"
proof (induction evs arbitrary: tr)
  case Nil
  then show ?case by simp
next
  case (Cons ev evs)
  show ?case
  proof (cases "response w tr ev")
    case (Some e)
    with Cons.prems show ?thesis by simp
  next
    case None
    with Cons.prems have "spec_run w evs (tr @ [ev]) = (None, tr1)" by simp
    from Cons.IH [OF this] have ih: "tr1 = (tr @ [ev]) @ evs"
      "\<forall>j<length evs. response w ((tr @ [ev]) @ take j evs) (evs ! j) = None"
      by simp_all
    have "\<forall>j<length (ev # evs). response w (tr @ take j (ev # evs)) ((ev # evs) ! j) = None"
    proof (intro allI impI)
      fix j assume j: "j < length (ev # evs)"
      show "response w (tr @ take j (ev # evs)) ((ev # evs) ! j) = None"
      proof (cases j)
        case 0
        with None show ?thesis by simp
      next
        case (Suc i)
        with j ih(2) show ?thesis by simp
      qed
    qed
    with ih(1) show ?thesis by simp
  qed
qed

lemma Provision_call_eq:
  assumes "x < length (swarm_vars mem)" and "y < length (auth_vars mem)"
    and "z < length (engine_vars mem)"
  shows "Provision_call w x y z (mem, s) =
     Some (fst (Provision w (swarm_vars mem ! x) (auth_vars mem ! y) (engine_vars mem ! z) s),
           mem\<lparr>swarm_vars := swarm_vars mem
                   @ [(swarm_vars mem ! x)\<lparr>swarm_Env := eng_Env (engine_vars mem ! z)\<rparr>],
                 auth_vars := auth_vars mem @ [auth_vars mem ! y],
                 engine_vars := engine_vars mem @ [engine_vars mem ! z]\<rparr>,
           snd (Provision w (swarm_vars mem ! x) (auth_vars mem ! y) (engine_vars mem ! z) s))"
  using assms
  by (simp add: Provision_call_def Provision_body_def Provision_def Let_def split: prod.splits)

lemma Provision_success_trace:
  assumes "fst (Provision w swarmOptions authOptions engineOptions s) = None"
  shows "trace (snd (Provision w swarmOptions authOptions engineOptions s))
           = trace s @ spec_plan w swarmOptions authOptions engineOptions (prov s)"
proof (cases "eng_StorageDriver engineOptions = ''''
              \<or> eng_StorageDriver engineOptions = ''overlay''")
  case False
  with assms show ?thesis by (simp add: Provision_unsupported)
next
  case True
  let ?plan = "spec_plan w swarmOptions authOptions engineOptions (prov s)"
  obtain r tr1 where run: "spec_run w ?plan (trace s) = (r, tr1)"
    by (cases "spec_run w ?plan (trace s)")
  with assms have "r = None" by (simp add: Provision_supported_fst [OF True])
  with run spec_run_None [of w ?plan "trace s" tr1] have "tr1 = trace s @ ?plan" by simp
  with run show ?thesis by (simp add: Provision_supported_trace [OF True])
qed

lemma last_spec_plan:
  "last (tr @ spec_plan w swarmOptions authOptions engineOptions p) =
     ConfigureSwarmCall
       (p\<lparr>SwarmOptions := swarmOptions,
           AuthOptions := setRemoteAuthOptions w
             (p\<lparr>SwarmOptions := swarmOptions, AuthOptions := authOptions,
                 EngineOptions := engineOptions\<lparr>eng_StorageDriver := ''overlay''\<rparr>\<rparr>),
           EngineOptions := engineOptions\<lparr>eng_StorageDriver := ''overlay''\<rparr>\<rparr>)
       (swarmOptions\<lparr>swarm_Env := eng_Env engineOptions\<rparr>)
       (setRemoteAuthOptions w
          (p\<lparr>SwarmOptions := swarmOptions, AuthOptions := authOptions,
              EngineOptions := engineOptions\<lparr>eng_StorageDriver := ''overlay''\<rparr>\<rparr>))"
  by (simp add: spec_plan_def spec_head_def spec_tail_def Let_def)

section \<open>The claims\<close>

text \<open>
  Claim C1. For every \<open>engineOptions\<close> passed to \<^verbatim>\<open>Provision\<close>: if its storage driver
  is the empty string, the storage driver stored on the provisioner is \<^verbatim>\<open>overlay\<close> when
  \<^verbatim>\<open>Provision\<close> returns and the error returned, if any, is not one built by
  \<^verbatim>\<open>fmt.Errorf\<close>; if it is neither empty nor \<^verbatim>\<open>overlay\<close>, \<^verbatim>\<open>Provision\<close> returns
  the unsupported-driver error and adds no event to the trace, so no remote command and no
  collaborator call happened.
\<close>

theorem C1_storage_driver:
  "(eng_StorageDriver engineOptions = '''' \<longrightarrow>
      eng_StorageDriver (EngineOptions (prov (snd
        (Provision w swarmOptions authOptions engineOptions s)))) = ''overlay''
      \<and> (\<forall>msg. fst (Provision w swarmOptions authOptions engineOptions s)
                  \<noteq> Some (Errorf msg)))
   \<and> (eng_StorageDriver engineOptions \<noteq> ''''
        \<and> eng_StorageDriver engineOptions \<noteq> ''overlay'' \<longrightarrow>
      fst (Provision w swarmOptions authOptions engineOptions s)
        = Some (Errorf (''Unsupported storage driver: '' @ eng_StorageDriver engineOptions))
      \<and> trace (snd (Provision w swarmOptions authOptions engineOptions s)) = trace s)"
proof (intro conjI impI allI)
  assume sd: "eng_StorageDriver engineOptions = ''''"
  then have sup: "eng_StorageDriver engineOptions = ''''
                  \<or> eng_StorageDriver engineOptions = ''overlay''" by simp
  show "eng_StorageDriver (EngineOptions (prov (snd
          (Provision w swarmOptions authOptions engineOptions s)))) = ''overlay''"
    by (simp add: Provision_supported [OF sup] Provision_steps_EngineOptions)
  fix msg
  show "fst (Provision w swarmOptions authOptions engineOptions s) \<noteq> Some (Errorf msg)"
  proof
    assume "fst (Provision w swarmOptions authOptions engineOptions s) = Some (Errorf msg)"
    then have "fst (spec_run w (spec_plan w swarmOptions authOptions engineOptions (prov s))
                     (trace s)) = Some (Errorf msg)"
      by (simp add: Provision_supported_fst [OF sup])
    then obtain tr1 where
      "spec_run w (spec_plan w swarmOptions authOptions engineOptions (prov s)) (trace s)
         = (Some (Errorf msg), tr1)"
      by (cases "spec_run w (spec_plan w swarmOptions authOptions engineOptions (prov s))
                   (trace s)") simp
    from spec_run_External [OF this] show False by simp
  qed
next
  assume "eng_StorageDriver engineOptions \<noteq> ''''
          \<and> eng_StorageDriver engineOptions \<noteq> ''overlay''"
  then show "fst (Provision w swarmOptions authOptions engineOptions s)
        = Some (Errorf (''Unsupported storage driver: '' @ eng_StorageDriver engineOptions))"
    by (simp add: Provision_unsupported)
next
  assume "eng_StorageDriver engineOptions \<noteq> ''''
          \<and> eng_StorageDriver engineOptions \<noteq> ''overlay''"
  then show "trace (snd (Provision w swarmOptions authOptions engineOptions s)) = trace s"
    by (simp add: Provision_unsupported)
qed

text \<open>
  Claim C1 on the stub executor: an empty storage driver is resolved to \<^verbatim>\<open>overlay\<close> and
  the call succeeds; \<^verbatim>\<open>btrfs\<close> is refused before anything is sent.
\<close>

theorem C1_storage_driver_witness:
  "eng_StorageDriver (demo_engine '''' ''https://get.docker.com'') = ''''
   \<and> eng_StorageDriver (EngineOptions (prov (snd
        (Provision (demo_env [] no_failure) demo_swarm ''/local/certs''
           (demo_engine '''' ''https://get.docker.com'') demo_session)))) = ''overlay''
   \<and> fst (Provision (demo_env [] no_failure) demo_swarm ''/local/certs''
           (demo_engine '''' ''https://get.docker.com'') demo_session) = None
   \<and> eng_StorageDriver (demo_engine ''btrfs'' ''https://get.docker.com'') \<noteq> ''''
   \<and> eng_StorageDriver (demo_engine ''btrfs'' ''https://get.docker.com'') \<noteq> ''overlay''
   \<and> fst (Provision (demo_env [] no_failure) demo_swarm ''/local/certs''
           (demo_engine ''btrfs'' ''https://get.docker.com'') demo_session)
        = Some (Errorf ''Unsupported storage driver: btrfs'')
   \<and> trace (snd (Provision (demo_env [] no_failure) demo_swarm ''/local/certs''
           (demo_engine ''btrfs'' ''https://get.docker.com'') demo_session)) = []"
proof -
  have a: "eng_StorageDriver (demo_engine '''' ''https://get.docker.com'') = ''''"
    by (simp add: demo_engine_def)
  have b: "eng_StorageDriver (demo_engine ''btrfs'' ''https://get.docker.com'') \<noteq> ''''
           \<and> eng_StorageDriver (demo_engine ''btrfs'' ''https://get.docker.com'') \<noteq> ''overlay''"
    by (simp add: demo_engine_def)
  have c: "fst (Provision (demo_env [] no_failure) demo_swarm ''/local/certs''
                  (demo_engine '''' ''https://get.docker.com'') demo_session) = None"
    by (simp add: demo_defs code_defs)
  have d: "trace demo_session = []" by (simp add: demo_session_def)
  have e: "eng_StorageDriver (demo_engine ''btrfs'' ''https://get.docker.com'') = ''btrfs''"
    by (simp add: demo_engine_def)
  from a b c d
    C1_storage_driver [of "demo_engine '''' ''https://get.docker.com''"
      "demo_env [] no_failure" demo_swarm "''/local/certs''" demo_session]
    C1_storage_driver [of "demo_engine ''btrfs'' ''https://get.docker.com''"
      "demo_env [] no_failure" demo_swarm "''/local/certs''" demo_session]
  show ?thesis unfolding e by simp
qed

text \<open>
  Claim C2. \<^verbatim>\<open>Package("docker", Upgrade)\<close> is \<^verbatim>\<open>upgrade()\<close>. If the command
  \<^verbatim>\<open>sudo apk upgrade\<close> fails, its error is returned and it is the only command issued. If
  it succeeds, \<^verbatim>\<open>sudo reboot\<close> is issued next and nil is returned, whatever the executor
  answers to the reboot. None of the commands issued starts with \<^verbatim>\<open>sudo rc-update\<close>.
\<close>

theorem C2_upgrade:
  "Package w ''docker'' Upgrade s = upgrade w s
   \<and> (\<forall>x. ssh_exec w (trace s) ''sudo apk upgrade'' = Inl x \<longrightarrow>
         upgrade w s = (Some (External x), s\<lparr>trace := trace s @ [SSH ''sudo apk upgrade'']\<rparr>))
   \<and> (\<forall>out. ssh_exec w (trace s) ''sudo apk upgrade'' = Inr out \<longrightarrow>
         upgrade w s
           = (None, s\<lparr>trace := trace s @ [SSH ''sudo apk upgrade'', SSH ''sudo reboot'']\<rparr>))
   \<and> (\<forall>c. SSH c \<in> set (drop (length (trace s)) (trace (snd (Package w ''docker'' Upgrade s))))
         \<longrightarrow> take 14 c \<noteq> ''sudo rc-update'')"
proof (intro conjI allI impI)
  show pk: "Package w ''docker'' Upgrade s = upgrade w s"
    by (simp add: Package_def)
  show "upgrade w s = (Some (External x), s\<lparr>trace := trace s @ [SSH ''sudo apk upgrade'']\<rparr>)"
    if "ssh_exec w (trace s) ''sudo apk upgrade'' = Inl x" for x
    using that by (simp add: upgrade_def SSHCommand_def)
  show "upgrade w s
          = (None, s\<lparr>trace := trace s @ [SSH ''sudo apk upgrade'', SSH ''sudo reboot'']\<rparr>)"
    if "ssh_exec w (trace s) ''sudo apk upgrade'' = Inr out" for out
    using that by (simp add: upgrade_def SSHCommand_def split: sum.splits)
  show "take 14 c \<noteq> ''sudo rc-update''"
    if "SSH c \<in> set (drop (length (trace s)) (trace (snd (Package w ''docker'' Upgrade s))))"
    for c
    using that unfolding pk
    by (auto simp add: upgrade_def SSHCommand_def split: sum.splits)
qed

text \<open>
  Claim C2 on two stub executors: one that fails the upgrade command, and one that runs it
  and then fails the reboot.
\<close>

theorem C2_upgrade_witness:
  "ssh_exec (demo_env [''sudo apk upgrade''] no_failure) (trace demo_session)
       ''sudo apk upgrade'' = Inl ''exit status 1''
   \<and> Package (demo_env [''sudo apk upgrade''] no_failure) ''docker'' Upgrade demo_session
       = (Some (External ''exit status 1''),
          demo_session\<lparr>trace := [SSH ''sudo apk upgrade'']\<rparr>)
   \<and> ssh_exec (demo_env [''sudo reboot''] no_failure) (trace demo_session)
       ''sudo apk upgrade'' = Inr ''''
   \<and> ssh_exec (demo_env [''sudo reboot''] no_failure) [SSH ''sudo apk upgrade'']
       ''sudo reboot'' = Inl ''exit status 1''
   \<and> Package (demo_env [''sudo reboot''] no_failure) ''docker'' Upgrade demo_session
       = (None, demo_session\<lparr>trace := [SSH ''sudo apk upgrade'', SSH ''sudo reboot'']\<rparr>)"
proof -
  have a: "ssh_exec (demo_env [''sudo apk upgrade''] no_failure) (trace demo_session)
             ''sudo apk upgrade'' = Inl ''exit status 1''"
    by (simp add: demo_env_def)
  have b: "ssh_exec (demo_env [''sudo reboot''] no_failure) (trace demo_session)
             ''sudo apk upgrade'' = Inr ''''"
    by (simp add: demo_env_def)
  have c: "ssh_exec (demo_env [''sudo reboot''] no_failure) [SSH ''sudo apk upgrade'']
             ''sudo reboot'' = Inl ''exit status 1''"
    by (simp add: demo_env_def)
  have d: "trace demo_session = []" by (simp add: demo_session_def)
  from a b c
    C2_upgrade [of "demo_env [''sudo apk upgrade''] no_failure" demo_session]
    C2_upgrade [of "demo_env [''sudo reboot''] no_failure" demo_session]
  show ?thesis by (simp add: d)
qed

text \<open>
  Claim C3 says that an action matching no case of the switch leaves the command empty and
  that \<^verbatim>\<open>Package\<close> then issues no remote command. The code leaves the command empty and
  hands it to \<^verbatim>\<open>SSHCommand\<close> all the same: \<^verbatim>\<open>Package("nginx", Upgrade)\<close> on the stub
  executor issues one remote command, the empty string, and returns its result.
\<close>

theorem C3_empty_command_is_executed:
  "Package (demo_env [] no_failure) ''nginx'' Upgrade demo_session
     = (None, demo_session\<lparr>trace := [SSH '''']\<rparr>)"
  by (simp add: Package_def SSHCommand_def demo_env_def demo_session_def)

text \<open>
  Claim C4 as worded has no condition on the storage driver. On the stub executor, where
  every command and every collaborator call succeeds, a call with storage driver
  \<^verbatim>\<open>btrfs\<close> returns the unsupported-driver error and issues nothing at all.
\<close>

theorem C4_unsupported_driver_counterexample:
  "fst (Provision (demo_env [] no_failure) demo_swarm ''/local/certs''
          (demo_engine ''btrfs'' ''https://get.docker.com'') demo_session)
     = Some (Errorf ''Unsupported storage driver: btrfs'')
   \<and> trace (snd (Provision (demo_env [] no_failure) demo_swarm ''/local/certs''
          (demo_engine ''btrfs'' ''https://get.docker.com'') demo_session)) = []"
  by (simp add: demo_defs Provision_def)

text \<open>
  Claim C4, amended with the condition on the storage driver. When the storage driver is
  empty or \<^verbatim>\<open>overlay\<close>, and every remote command and every collaborator call succeeds,
  \<^verbatim>\<open>Provision\<close> returns nil and adds exactly these events, in this order: the hosts-file
  cleanup command, the generic base's \<^verbatim>\<open>SetHostname\<close>, the hostname-persistence command,
  one \<^verbatim>\<open>rc-update add\<close> command per entry of \<open>Packages\<close> in order, \<^verbatim>\<open>selectDocker\<close>
  only if the install URL differs from the default, \<^verbatim>\<open>makeDockerOptionsDir\<close>, one
  \<^verbatim>\<open>ConfigureAuth\<close> call on a provisioner whose auth options are the result of
  \<^verbatim>\<open>setRemoteAuthOptions\<close>, and one \<^verbatim>\<open>configureSwarm\<close> call with the same auth
  options.
\<close>

theorem C4_success_order:
  assumes ssh_ok: "\<forall>tr c. \<exists>out. ssh_exec w tr c = Inr out"
    and collab_ok: "\<forall>tr ev. collab w tr ev = None"
    and sd: "eng_StorageDriver engineOptions = ''''
             \<or> eng_StorageDriver engineOptions = ''overlay''"
  shows "fst (Provision w swarmOptions authOptions engineOptions s) = None
    \<and> trace (snd (Provision w swarmOptions authOptions engineOptions s)) =
        trace s @
        (let p1 = (prov s)\<lparr>SwarmOptions := swarmOptions, AuthOptions := authOptions,
                     EngineOptions := engineOptions\<lparr>eng_StorageDriver := ''overlay''\<rparr>\<rparr>;
             p2 = p1\<lparr>AuthOptions := setRemoteAuthOptions w p1\<rparr>
         in [SSH hosts_cleanup,
             GenericSetHostname p1 (GetMachineName (Driver (prov s))),
             SSH (hostnameTmpl w (GetMachineName (Driver (prov s))))]
            @ map (\<lambda>pkg. SSH (''sudo rc-update add '' @ pkg @ '' boot'')) (Packages (prov s))
            @ (if eng_InstallURL engineOptions = DefaultEngineInstallURL w then []
               else [SelectDocker p1 (eng_InstallURL engineOptions)])
            @ [MakeDockerOptionsDir p1,
               ConfigureAuthCall p2,
               ConfigureSwarmCall p2 (swarmOptions\<lparr>swarm_Env := eng_Env engineOptions\<rparr>)
                 (setRemoteAuthOptions w p1)])"
proof -
  let ?plan = "spec_plan w swarmOptions authOptions engineOptions (prov s)"
  have run: "spec_run w ?plan (trace s) = (None, trace s @ ?plan)"
    using ssh_ok collab_ok by (intro spec_run_all_ok) blast+
  have "fst (Provision w swarmOptions authOptions engineOptions s) = None"
    by (simp add: Provision_supported_fst [OF sd] run)
  moreover have "trace (snd (Provision w swarmOptions authOptions engineOptions s))
                   = trace s @ ?plan"
    by (simp add: Provision_supported_trace [OF sd] run)
  ultimately show ?thesis
    by (simp add: spec_plan_def spec_head_def spec_tail_def Let_def)
qed

text \<open>
  Claim C4 on the stub executor, with a machine named \<^verbatim>\<open>box\<close>, the caller's certificate
  directory \<^verbatim>\<open>/local/certs\<close> and a non-default install URL: the collaborators see
  \<^verbatim>\<open>/etc/docker\<close>, not \<^verbatim>\<open>/local/certs\<close>.
\<close>

theorem C4_success_order_witness:
  "(\<forall>tr c. \<exists>out. ssh_exec (demo_env [] no_failure) tr c = Inr out)
   \<and> (\<forall>tr ev. collab (demo_env [] no_failure) tr ev = None)
   \<and> eng_StorageDriver (demo_engine '''' ''https://test.docker.com'') = ''''
   \<and> fst (Provision (demo_env [] no_failure) demo_swarm ''/local/certs''
            (demo_engine '''' ''https://test.docker.com'') demo_session) = None
   \<and> trace (snd (Provision (demo_env [] no_failure) demo_swarm ''/local/certs''
            (demo_engine '''' ''https://test.docker.com'') demo_session))
      = (let p1 = demo_prov\<lparr>SwarmOptions := demo_swarm, AuthOptions := ''/local/certs'',
                    EngineOptions := demo_engine ''overlay'' ''https://test.docker.com''\<rparr>;
             p2 = p1\<lparr>AuthOptions := ''/etc/docker''\<rparr>
         in [SSH hosts_cleanup,
             GenericSetHostname p1 ''box'',
             SSH ''sudo setup-hostname box'',
             SSH ''sudo rc-update add docker boot'',
             SelectDocker p1 ''https://test.docker.com'',
             MakeDockerOptionsDir p1,
             ConfigureAuthCall p2,
             ConfigureSwarmCall p2 (demo_swarm\<lparr>swarm_Env := [''HTTP_PROXY=p'']\<rparr>)
               ''/etc/docker''])"
proof -
  have a: "\<forall>tr c. \<exists>out. ssh_exec (demo_env [] no_failure) tr c = Inr out"
    by (simp add: demo_env_def)
  have b: "\<forall>tr ev. collab (demo_env [] no_failure) tr ev = None"
    by (simp add: demo_env_def no_failure_def)
  have c: "eng_StorageDriver (demo_engine '''' ''https://test.docker.com'') = ''''"
    by (simp add: demo_engine_def)
  have c': "eng_StorageDriver (demo_engine '''' ''https://test.docker.com'') = ''''
            \<or> eng_StorageDriver (demo_engine '''' ''https://test.docker.com'') = ''overlay''"
    using c by simp
  from C4_success_order [OF a b c', of demo_swarm "''/local/certs''" demo_session] a b c
  show ?thesis by (simp add: demo_defs Let_def)
qed

text \<open>
  Claim C5. If \<^verbatim>\<open>Provision\<close> returns an error, then either it is the unsupported-driver
  error of the storage-driver step and nothing was issued, or there is a step \<open>k\<close> of
  the sequence such that the events added are exactly steps \<open>0\<close> to \<open>k\<close>, steps
  \<open>0\<close> to \<open>k - 1\<close> answered nil, and the error returned is the error step \<open>k\<close>
  answered. If \<^verbatim>\<open>Provision\<close> returns nil, the whole sequence ran and every step answered
  nil.
\<close>

theorem C5_fail_fast:
  "(\<forall>err. fst (Provision w swarmOptions authOptions engineOptions s) = Some err \<longrightarrow>
      (eng_StorageDriver engineOptions \<noteq> ''''
       \<and> eng_StorageDriver engineOptions \<noteq> ''overlay''
       \<and> err = Errorf (''Unsupported storage driver: '' @ eng_StorageDriver engineOptions)
       \<and> trace (snd (Provision w swarmOptions authOptions engineOptions s)) = trace s)
      \<or> (\<exists>k<length (spec_plan w swarmOptions authOptions engineOptions (prov s)).
            trace (snd (Provision w swarmOptions authOptions engineOptions s))
              = trace s @ take (Suc k)
                            (spec_plan w swarmOptions authOptions engineOptions (prov s))
            \<and> response w
                 (trace s @ take k (spec_plan w swarmOptions authOptions engineOptions (prov s)))
                 (spec_plan w swarmOptions authOptions engineOptions (prov s) ! k) = Some err
            \<and> (\<forall>j<k. response w
                 (trace s @ take j (spec_plan w swarmOptions authOptions engineOptions (prov s)))
                 (spec_plan w swarmOptions authOptions engineOptions (prov s) ! j) = None)))
   \<and> (fst (Provision w swarmOptions authOptions engineOptions s) = None \<longrightarrow>
        trace (snd (Provision w swarmOptions authOptions engineOptions s))
          = trace s @ spec_plan w swarmOptions authOptions engineOptions (prov s)
        \<and> (\<forall>j<length (spec_plan w swarmOptions authOptions engineOptions (prov s)).
              response w
                (trace s @ take j (spec_plan w swarmOptions authOptions engineOptions (prov s)))
                (spec_plan w swarmOptions authOptions engineOptions (prov s) ! j) = None))"
proof (cases "eng_StorageDriver engineOptions = ''''
              \<or> eng_StorageDriver engineOptions = ''overlay''")
  case False
  then show ?thesis by (simp add: Provision_unsupported)
next
  case True
  let ?plan = "spec_plan w swarmOptions authOptions engineOptions (prov s)"
  let ?P = "Provision w swarmOptions authOptions engineOptions s"
  obtain r tr1 where run: "spec_run w ?plan (trace s) = (r, tr1)"
    by (cases "spec_run w ?plan (trace s)")
  have r: "fst ?P = r" and tr1: "trace (snd ?P) = tr1"
    by (simp_all add: Provision_supported_fst [OF True] Provision_supported_trace [OF True] run)
  show ?thesis
  proof (cases r)
    case None
    with run spec_run_None [of w ?plan "trace s" tr1] r tr1 show ?thesis by simp
  next
    case (Some e)
    with run spec_run_Some [of w ?plan "trace s" e tr1] r tr1 show ?thesis by simp
  qed
qed

text \<open>
  Claim C5 on a stub executor that fails the \<^verbatim>\<open>rc-update add docker\<close> command: the
  error returned is the executor's, and the trace stops at that command.
\<close>

theorem C5_fail_fast_witness:
  "fst (Provision (demo_env [''sudo rc-update add docker boot''] no_failure) demo_swarm
          ''/local/certs'' (demo_engine ''overlay'' ''https://get.docker.com'') demo_session)
     = Some (External ''exit status 1'')
   \<and> trace (snd (Provision (demo_env [''sudo rc-update add docker boot''] no_failure)
          demo_swarm ''/local/certs'' (demo_engine ''overlay'' ''https://get.docker.com'')
          demo_session))
     = [SSH hosts_cleanup,
        GenericSetHostname
          (demo_prov\<lparr>SwarmOptions := demo_swarm, AuthOptions := ''/local/certs'',
             EngineOptions := demo_engine ''overlay'' ''https://get.docker.com''\<rparr>) ''box'',
        SSH ''sudo setup-hostname box'',
        SSH ''sudo rc-update add docker boot'']
   \<and> (\<exists>k<length (spec_plan (demo_env [''sudo rc-update add docker boot''] no_failure)
                    demo_swarm ''/local/certs''
                    (demo_engine ''overlay'' ''https://get.docker.com'') (prov demo_session)).
         trace (snd (Provision (demo_env [''sudo rc-update add docker boot''] no_failure)
             demo_swarm ''/local/certs'' (demo_engine ''overlay'' ''https://get.docker.com'')
             demo_session))
           = trace demo_session @ take (Suc k)
               (spec_plan (demo_env [''sudo rc-update add docker boot''] no_failure)
                  demo_swarm ''/local/certs''
                  (demo_engine ''overlay'' ''https://get.docker.com'') (prov demo_session))
         \<and> response (demo_env [''sudo rc-update add docker boot''] no_failure)
              (trace demo_session @ take k
                 (spec_plan (demo_env [''sudo rc-update add docker boot''] no_failure)
                    demo_swarm ''/local/certs''
                    (demo_engine ''overlay'' ''https://get.docker.com'') (prov demo_session)))
              (spec_plan (demo_env [''sudo rc-update add docker boot''] no_failure)
                 demo_swarm ''/local/certs''
                 (demo_engine ''overlay'' ''https://get.docker.com'') (prov demo_session) ! k)
            = Some (External ''exit status 1''))"
proof -
  let ?w = "demo_env [''sudo rc-update add docker boot''] no_failure"
  let ?en = "demo_engine ''overlay'' ''https://get.docker.com''"
  have a: "fst (Provision ?w demo_swarm ''/local/certs'' ?en demo_session)
             = Some (External ''exit status 1'')"
    by (simp add: demo_defs code_defs)
  have b: "trace (snd (Provision ?w demo_swarm ''/local/certs'' ?en demo_session))
     = [SSH hosts_cleanup,
        GenericSetHostname
          (demo_prov\<lparr>SwarmOptions := demo_swarm, AuthOptions := ''/local/certs'',
             EngineOptions := ?en\<rparr>) ''box'',
        SSH ''sudo setup-hostname box'',
        SSH ''sudo rc-update add docker boot'']"
    by (simp add: demo_defs code_defs)
  have c: "eng_StorageDriver ?en = ''overlay''" by (simp add: demo_engine_def)
  from C5_fail_fast [of ?w demo_swarm "''/local/certs''" ?en demo_session] a
  have "(eng_StorageDriver ?en \<noteq> '''' \<and> eng_StorageDriver ?en \<noteq> ''overlay''
       \<and> External ''exit status 1'' = Errorf (''Unsupported storage driver: '' @ eng_StorageDriver ?en)
       \<and> trace (snd (Provision ?w demo_swarm ''/local/certs'' ?en demo_session)) = trace demo_session)
      \<or> (\<exists>k<length (spec_plan ?w demo_swarm ''/local/certs'' ?en (prov demo_session)).
            trace (snd (Provision ?w demo_swarm ''/local/certs'' ?en demo_session))
              = trace demo_session @ take (Suc k)
                            (spec_plan ?w demo_swarm ''/local/certs'' ?en (prov demo_session))
            \<and> response ?w
                 (trace demo_session @ take k (spec_plan ?w demo_swarm ''/local/certs'' ?en (prov demo_session)))
                 (spec_plan ?w demo_swarm ''/local/certs'' ?en (prov demo_session) ! k)
                 = Some (External ''exit status 1'')
            \<and> (\<forall>j<k. response ?w
                 (trace demo_session @ take j (spec_plan ?w demo_swarm ''/local/certs'' ?en (prov demo_session)))
                 (spec_plan ?w demo_swarm ''/local/certs'' ?en (prov demo_session) ! j) = None))"
    by blast
  with c have "\<exists>k<length (spec_plan ?w demo_swarm ''/local/certs'' ?en (prov demo_session)).
            trace (snd (Provision ?w demo_swarm ''/local/certs'' ?en demo_session))
              = trace demo_session @ take (Suc k)
                            (spec_plan ?w demo_swarm ''/local/certs'' ?en (prov demo_session))
            \<and> response ?w
                 (trace demo_session @ take k (spec_plan ?w demo_swarm ''/local/certs'' ?en (prov demo_session)))
                 (spec_plan ?w demo_swarm ''/local/certs'' ?en (prov demo_session) ! k)
                 = Some (External ''exit status 1'')"
    by auto
  with a b show ?thesis by blast
qed

text \<open>
  Claim C6. For every package name, \<^verbatim>\<open>Package(name, Install)\<close> adds exactly the command
  \<^verbatim>\<open>sudo rc-update add <name> boot\<close> to the trace, \<^verbatim>\<open>Package(name, Remove)\<close> adds
  exactly \<^verbatim>\<open>sudo rc-update del <name> boot\<close>, and Install followed by Remove adds exactly
  that pair, in that order.
\<close>

theorem C6_install_remove:
  "trace (snd (Package w name Install s))
     = trace s @ [SSH (''sudo rc-update add '' @ name @ '' boot'')]
   \<and> trace (snd (Package w name Remove s))
     = trace s @ [SSH (''sudo rc-update del '' @ name @ '' boot'')]
   \<and> trace (snd (Package w name Remove (snd (Package w name Install s))))
     = trace s @ [SSH (''sudo rc-update add '' @ name @ '' boot''),
                  SSH (''sudo rc-update del '' @ name @ '' boot'')]"
proof -
  have i: "trace (snd (Package w name Install t))
             = trace t @ [SSH (''sudo rc-update add '' @ name @ '' boot'')]" for t
    by (simp add: Package_def SSHCommand_def Let_def split: sum.splits)
  have r: "trace (snd (Package w name Remove t))
             = trace t @ [SSH (''sudo rc-update del '' @ name @ '' boot'')]" for t
    by (simp add: Package_def SSHCommand_def Let_def split: sum.splits)
  show ?thesis by (simp add: i r)
qed

text \<open>
  Claim C7. For every hostname, \<^verbatim>\<open>SetHostname\<close> runs the hosts-file cleanup command,
  then the generic base's \<^verbatim>\<open>SetHostname\<close>, then the hostname-persistence command, and
  stops at the first that fails, returning its error: if the cleanup command fails, the
  cleanup command is the only event added.
\<close>

theorem C7_SetHostname_order:
  "(\<forall>x. ssh_exec w (trace s) hosts_cleanup = Inl x \<longrightarrow>
       SetHostname w hostname s
         = (Some (External x), s\<lparr>trace := trace s @ [SSH hosts_cleanup]\<rparr>))
   \<and> (\<forall>out x. ssh_exec w (trace s) hosts_cleanup = Inr out
         \<and> collab w (trace s @ [SSH hosts_cleanup]) (GenericSetHostname (prov s) hostname)
             = Some x \<longrightarrow>
       SetHostname w hostname s
         = (Some (External x),
            s\<lparr>trace := trace s @ [SSH hosts_cleanup, GenericSetHostname (prov s) hostname]\<rparr>))
   \<and> (\<forall>out x. ssh_exec w (trace s) hosts_cleanup = Inr out
         \<and> collab w (trace s @ [SSH hosts_cleanup]) (GenericSetHostname (prov s) hostname)
             = None
         \<and> ssh_exec w (trace s @ [SSH hosts_cleanup, GenericSetHostname (prov s) hostname])
             (hostnameTmpl w hostname) = Inl x \<longrightarrow>
       SetHostname w hostname s
         = (Some (External x),
            s\<lparr>trace := trace s @ [SSH hosts_cleanup, GenericSetHostname (prov s) hostname,
                                   SSH (hostnameTmpl w hostname)]\<rparr>))
   \<and> (\<forall>out out2. ssh_exec w (trace s) hosts_cleanup = Inr out
         \<and> collab w (trace s @ [SSH hosts_cleanup]) (GenericSetHostname (prov s) hostname)
             = None
         \<and> ssh_exec w (trace s @ [SSH hosts_cleanup, GenericSetHostname (prov s) hostname])
             (hostnameTmpl w hostname) = Inr out2 \<longrightarrow>
       SetHostname w hostname s
         = (None,
            s\<lparr>trace := trace s @ [SSH hosts_cleanup, GenericSetHostname (prov s) hostname,
                                   SSH (hostnameTmpl w hostname)]\<rparr>))"
  by (simp add: SetHostname_def SSHCommand_def GenericProvisioner_SetHostname_def
      collab_call_def)

text \<open>
  Claim C7 on three stub executors: the cleanup command fails, the generic base fails, and
  nothing fails.
\<close>

theorem C7_SetHostname_order_witness:
  "ssh_exec (demo_env [hosts_cleanup] no_failure) (trace demo_session) hosts_cleanup
     = Inl ''exit status 1''
   \<and> SetHostname (demo_env [hosts_cleanup] no_failure) ''newname'' demo_session
     = (Some (External ''exit status 1''), demo_session\<lparr>trace := [SSH hosts_cleanup]\<rparr>)
   \<and> ssh_exec (demo_env [] generic_hostname_fails) (trace demo_session) hosts_cleanup = Inr ''''
   \<and> collab (demo_env [] generic_hostname_fails) (trace demo_session @ [SSH hosts_cleanup])
        (GenericSetHostname (prov demo_session) ''newname'') = Some ''collaborator failed''
   \<and> SetHostname (demo_env [] generic_hostname_fails) ''newname'' demo_session
     = (Some (External ''collaborator failed''),
        demo_session\<lparr>trace := [SSH hosts_cleanup, GenericSetHostname demo_prov ''newname'']\<rparr>)
   \<and> SetHostname (demo_env [] no_failure) ''newname'' demo_session
     = (None,
        demo_session\<lparr>trace := [SSH hosts_cleanup, GenericSetHostname demo_prov ''newname'',
                                SSH ''sudo setup-hostname newname'']\<rparr>)"
proof -
  have a: "ssh_exec (demo_env [hosts_cleanup] no_failure) (trace demo_session) hosts_cleanup
             = Inl ''exit status 1''"
    by (simp add: demo_env_def)
  have b: "ssh_exec (demo_env [] generic_hostname_fails) (trace demo_session) hosts_cleanup
             = Inr ''''"
    "collab (demo_env [] generic_hostname_fails) (trace demo_session @ [SSH hosts_cleanup])
        (GenericSetHostname (prov demo_session) ''newname'') = Some ''collaborator failed''"
    by (simp_all add: demo_env_def generic_hostname_fails_def)
  have c: "ssh_exec (demo_env [] no_failure) (trace demo_session) hosts_cleanup = Inr ''''"
    "collab (demo_env [] no_failure) (trace demo_session @ [SSH hosts_cleanup])
        (GenericSetHostname (prov demo_session) ''newname'') = None"
    "ssh_exec (demo_env [] no_failure)
        (trace demo_session @ [SSH hosts_cleanup, GenericSetHostname (prov demo_session) ''newname''])
        (hostnameTmpl (demo_env [] no_failure) ''newname'') = Inr ''''"
    "hostnameTmpl (demo_env [] no_failure) ''newname'' = ''sudo setup-hostname newname''"
    by (simp_all add: demo_env_def no_failure_def)
  have d: "trace demo_session = []" "prov demo_session = demo_prov"
    by (simp_all add: demo_session_def)
  from a b c
    C7_SetHostname_order [of "demo_env [hosts_cleanup] no_failure" demo_session "''newname''"]
    C7_SetHostname_order [of "demo_env [] generic_hostname_fails" demo_session "''newname''"]
    C7_SetHostname_order [of "demo_env [] no_failure" demo_session "''newname''"]
  show ?thesis by (simp add: d)
qed

text \<open>
  Claim C8. Whenever a call of \<^verbatim>\<open>Provision\<close> reaches \<^verbatim>\<open>configureSwarm\<close>, the swarm
  options passed to it have \<open>Env\<close> equal to the \<open>Env\<close> of \<open>engineOptions\<close>.
\<close>

theorem C8_swarm_env:
  assumes "ConfigureSwarmCall p so ao
             \<in> set (drop (length (trace s))
                      (trace (snd (Provision w swarmOptions authOptions engineOptions s))))"
  shows "swarm_Env so = eng_Env engineOptions"
  using Provision_swarm_call [OF assms] by simp

text \<open>Claim C8 on the stub executor, where the swarm step is reached.\<close>

theorem C8_swarm_env_witness:
  "ConfigureSwarmCall
     (demo_prov\<lparr>SwarmOptions := demo_swarm, AuthOptions := ''/etc/docker'',
        EngineOptions := demo_engine ''overlay'' ''https://get.docker.com''\<rparr>)
     (demo_swarm\<lparr>swarm_Env := [''HTTP_PROXY=p'']\<rparr>) ''/etc/docker''
     \<in> set (drop (length (trace demo_session))
              (trace (snd (Provision (demo_env [] no_failure) demo_swarm ''/local/certs''
                 (demo_engine '''' ''https://get.docker.com'') demo_session))))
   \<and> swarm_Env (demo_swarm\<lparr>swarm_Env := [''HTTP_PROXY=p'']\<rparr>)
       = eng_Env (demo_engine '''' ''https://get.docker.com'')"
proof -
  have a: "ConfigureSwarmCall
     (demo_prov\<lparr>SwarmOptions := demo_swarm, AuthOptions := ''/etc/docker'',
        EngineOptions := demo_engine ''overlay'' ''https://get.docker.com''\<rparr>)
     (demo_swarm\<lparr>swarm_Env := [''HTTP_PROXY=p'']\<rparr>) ''/etc/docker''
     \<in> set (drop (length (trace demo_session))
              (trace (snd (Provision (demo_env [] no_failure) demo_swarm ''/local/certs''
                 (demo_engine '''' ''https://get.docker.com'') demo_session))))"
    by (simp add: demo_defs code_defs)
  from C8_swarm_env [OF a] a show ?thesis by blast
qed

text \<open>
  Claim C9. After \<^verbatim>\<open>init()\<close> has registered the Alpine strategy, looking up
  \<^verbatim>\<open>AlpineLinux\<close> gives a factory, and the provisioner it builds for any driver has
  \<^verbatim>\<open>String()\<close> equal to \<^verbatim>\<open>alpine\<close> and the package list \<^verbatim>\<open>[docker]\<close>.
\<close>

theorem C9_registry_round_trip:
  "map_option (\<lambda>rp. (String_of (New rp d), Packages (New rp d)))
     (lookup_provisioner ''AlpineLinux'' (init_alpine provisioners))
   = Some (''alpine'', [''docker''])"
  by (simp add: lookup_provisioner_def init_alpine_def Register_def String_of_def
      NewAlpineProvisioner_def)

text \<open>
  Claim C10. A call of \<^verbatim>\<open>Provision\<close> on the caller's variables \<open>x\<close>, \<open>y\<close>, \<open>z\<close>
  returns, and whatever its outcome:
  \<^item> the swarm options stored on the provisioner are the ones the caller holds in \<open>x\<close>,
    so their \<open>Env\<close> is the caller's, and differs from the engine's \<open>Env\<close> whenever
    the caller's does;
  \<^item> every variable that existed before the call holds what it held before, the caller's
    three structs among them;
  \<^item> the parameter \<open>swarmOptions\<close>, allocated by the call, holds the caller's swarm
    options with \<open>Env\<close> replaced by the engine's;
  \<^item> every \<^verbatim>\<open>configureSwarm\<close> call made is passed that merged copy, while the
    provisioner handed to it still stores the caller's swarm options; and if
    \<^verbatim>\<open>Provision\<close> returns nil, such a call was made, as the last event.
\<close>

theorem C10_stored_swarm_options:
  assumes x: "x < length (swarm_vars mem)" and y: "y < length (auth_vars mem)"
    and z: "z < length (engine_vars mem)"
  shows "(\<exists>r mem1 s1. Provision_call w x y z (mem, s) = Some (r, mem1, s1))
   \<and> (\<forall>r mem1 s1. Provision_call w x y z (mem, s) = Some (r, mem1, s1) \<longrightarrow>
        (r, s1) = Provision w (swarm_vars mem ! x) (auth_vars mem ! y) (engine_vars mem ! z) s
        \<and> SwarmOptions (prov s1) = swarm_vars mem ! x
        \<and> (swarm_Env (swarm_vars mem ! x) \<noteq> eng_Env (engine_vars mem ! z) \<longrightarrow>
             swarm_Env (SwarmOptions (prov s1)) \<noteq> eng_Env (engine_vars mem ! z))
        \<and> take (length (swarm_vars mem)) (swarm_vars mem1) = swarm_vars mem
        \<and> take (length (auth_vars mem)) (auth_vars mem1) = auth_vars mem
        \<and> take (length (engine_vars mem)) (engine_vars mem1) = engine_vars mem
        \<and> swarm_vars mem1 ! x = swarm_vars mem ! x
        \<and> auth_vars mem1 ! y = auth_vars mem ! y
        \<and> engine_vars mem1 ! z = engine_vars mem ! z
        \<and> swarm_vars mem1 ! length (swarm_vars mem)
             = (swarm_vars mem ! x)\<lparr>swarm_Env := eng_Env (engine_vars mem ! z)\<rparr>
        \<and> (\<forall>p so ao. ConfigureSwarmCall p so ao \<in> set (drop (length (trace s)) (trace s1))
              \<longrightarrow> SwarmOptions p = swarm_vars mem ! x
                  \<and> so = (swarm_vars mem ! x)\<lparr>swarm_Env := eng_Env (engine_vars mem ! z)\<rparr>)
        \<and> (r = None \<longrightarrow>
              (\<exists>p ao. last (trace s1)
                         = ConfigureSwarmCall p
                             ((swarm_vars mem ! x)\<lparr>swarm_Env := eng_Env (engine_vars mem ! z)\<rparr>)
                             ao
                     \<and> last (trace s1) \<in> set (drop (length (trace s)) (trace s1))
                     \<and> SwarmOptions p = swarm_vars mem ! x)))"
proof (intro conjI allI impI)
  let ?sw = "swarm_vars mem ! x" and ?au = "auth_vars mem ! y" and ?en = "engine_vars mem ! z"
  let ?P = "Provision w ?sw ?au ?en s"
  note call = Provision_call_eq [OF x y z, of w s]
  show "\<exists>r mem1 s1. Provision_call w x y z (mem, s) = Some (r, mem1, s1)"
    unfolding call by blast
  fix r mem1 s1
  assume "Provision_call w x y z (mem, s) = Some (r, mem1, s1)"
  then have r: "r = fst ?P" and s1: "s1 = snd ?P"
    and mem1: "mem1 = mem\<lparr>swarm_vars := swarm_vars mem @ [?sw\<lparr>swarm_Env := eng_Env ?en\<rparr>],
                          auth_vars := auth_vars mem @ [?au],
                          engine_vars := engine_vars mem @ [?en]\<rparr>"
    unfolding call by simp_all
  show "(r, s1) = ?P" by (simp add: r s1)
  show stored: "SwarmOptions (prov s1) = ?sw" by (simp add: s1 Provision_SwarmOptions)
  show "swarm_Env (SwarmOptions (prov s1)) \<noteq> eng_Env ?en" if "swarm_Env ?sw \<noteq> eng_Env ?en"
    using that by (simp add: stored)
  show "take (length (swarm_vars mem)) (swarm_vars mem1) = swarm_vars mem"
    and "take (length (auth_vars mem)) (auth_vars mem1) = auth_vars mem"
    and "take (length (engine_vars mem)) (engine_vars mem1) = engine_vars mem"
    by (simp_all add: mem1)
  show "swarm_vars mem1 ! x = ?sw" and "auth_vars mem1 ! y = ?au"
    and "engine_vars mem1 ! z = ?en"
    using x y z by (simp_all add: mem1 nth_append)
  show "swarm_vars mem1 ! length (swarm_vars mem) = ?sw\<lparr>swarm_Env := eng_Env ?en\<rparr>"
    by (simp add: mem1)
  show "SwarmOptions p = ?sw" and "so = ?sw\<lparr>swarm_Env := eng_Env ?en\<rparr>"
    if "ConfigureSwarmCall p so ao \<in> set (drop (length (trace s)) (trace s1))" for p so ao
    using Provision_swarm_call [of p so ao s w ?sw ?au ?en] that by (simp_all add: s1)
  show "\<exists>p ao. last (trace s1) = ConfigureSwarmCall p (?sw\<lparr>swarm_Env := eng_Env ?en\<rparr>) ao
               \<and> last (trace s1) \<in> set (drop (length (trace s)) (trace s1))
               \<and> SwarmOptions p = ?sw"
    if "r = None"
  proof -
    from that r have "fst ?P = None" by simp
    then have tr: "trace s1 = trace s @ spec_plan w ?sw ?au ?en (prov s)"
      unfolding s1 by (rule Provision_success_trace)
    have ne: "spec_plan w ?sw ?au ?en (prov s) \<noteq> []"
      by (simp add: spec_plan_def spec_head_def Let_def)
    then have "last (trace s1) \<in> set (drop (length (trace s)) (trace s1))"
      by (simp add: tr)
    then show ?thesis
      unfolding tr last_spec_plan by simp
  qed
qed

text \<open>
  Claim C10 on the stub executor, where the call succeeds: the stored \<open>Env\<close> is the
  caller's \<^verbatim>\<open>SWARM=1\<close>, the caller's three variables are unchanged, the parameter holds
  the engine's \<open>Env\<close>, and the last event is the \<^verbatim>\<open>configureSwarm\<close> call with the
  merged copy.
\<close>

theorem C10_stored_swarm_options_witness:
  "0 < length (swarm_vars demo_memory) \<and> 0 < length (auth_vars demo_memory)
   \<and> 0 < length (engine_vars demo_memory)
   \<and> swarm_Env (swarm_vars demo_memory ! 0) \<noteq> eng_Env (engine_vars demo_memory ! 0)
   \<and> (\<exists>mem1 s1.
        Provision_call (demo_env [] no_failure) 0 0 0 (demo_memory, demo_session)
          = Some (None, mem1, s1)
        \<and> swarm_Env (SwarmOptions (prov s1)) = [''SWARM=1'']
        \<and> swarm_Env (SwarmOptions (prov s1)) \<noteq> [''HTTP_PROXY=p'']
        \<and> swarm_vars mem1 ! 0 = demo_swarm
        \<and> auth_vars mem1 ! 0 = ''/local/certs''
        \<and> engine_vars mem1 ! 0 = demo_engine '''' ''https://get.docker.com''
        \<and> swarm_vars mem1 ! 1 = demo_swarm\<lparr>swarm_Env := [''HTTP_PROXY=p'']\<rparr>
        \<and> last (trace s1)
            = ConfigureSwarmCall
                (demo_prov\<lparr>SwarmOptions := demo_swarm, AuthOptions := ''/etc/docker'',
                   EngineOptions := demo_engine ''overlay'' ''https://get.docker.com''\<rparr>)
                (demo_swarm\<lparr>swarm_Env := [''HTTP_PROXY=p'']\<rparr>) ''/etc/docker''
        \<and> (\<exists>p ao. last (trace s1)
                     = ConfigureSwarmCall p (demo_swarm\<lparr>swarm_Env := [''HTTP_PROXY=p'']\<rparr>) ao
                   \<and> last (trace s1) \<in> set (drop (length (trace demo_session)) (trace s1))
                   \<and> SwarmOptions p = demo_swarm))"
proof -
  let ?w = "demo_env [] no_failure"
  let ?en = "demo_engine '''' ''https://get.docker.com''"
  have h: "0 < length (swarm_vars demo_memory)" "0 < length (auth_vars demo_memory)"
    "0 < length (engine_vars demo_memory)"
    by (simp_all add: demo_memory_def)
  have v: "swarm_vars demo_memory ! 0 = demo_swarm" "auth_vars demo_memory ! 0 = ''/local/certs''"
    "engine_vars demo_memory ! 0 = ?en" "length (swarm_vars demo_memory) = 1"
    by (simp_all add: demo_memory_def)
  have d: "swarm_Env demo_swarm = [''SWARM=1'']" "eng_Env ?en = [''HTTP_PROXY=p'']"
    by (simp_all add: demo_swarm_def demo_engine_def)
  have ok: "fst (Provision ?w demo_swarm ''/local/certs'' ?en demo_session) = None"
    by (simp add: demo_defs code_defs)
  have lst: "last (trace (snd (Provision ?w demo_swarm ''/local/certs'' ?en demo_session)))
            = ConfigureSwarmCall
                (demo_prov\<lparr>SwarmOptions := demo_swarm, AuthOptions := ''/etc/docker'',
                   EngineOptions := demo_engine ''overlay'' ''https://get.docker.com''\<rparr>)
                (demo_swarm\<lparr>swarm_Env := [''HTTP_PROXY=p'']\<rparr>) ''/etc/docker''"
    by (simp add: demo_defs code_defs)
  from C10_stored_swarm_options [OF h, of ?w demo_session]
  obtain r mem1 s1 where
    call: "Provision_call ?w 0 0 0 (demo_memory, demo_session) = Some (r, mem1, s1)"
    by blast
  from C10_stored_swarm_options [OF h, of ?w demo_session] call
  have facts: "(r, s1) = Provision ?w demo_swarm ''/local/certs'' ?en demo_session"
    "SwarmOptions (prov s1) = demo_swarm"
    "swarm_vars mem1 ! 0 = demo_swarm" "auth_vars mem1 ! 0 = ''/local/certs''"
    "engine_vars mem1 ! 0 = ?en"
    "swarm_vars mem1 ! 1 = demo_swarm\<lparr>swarm_Env := [''HTTP_PROXY=p'']\<rparr>"
    "r = None \<longrightarrow>
       (\<exists>p ao. last (trace s1)
                  = ConfigureSwarmCall p (demo_swarm\<lparr>swarm_Env := [''HTTP_PROXY=p'']\<rparr>) ao
              \<and> last (trace s1) \<in> set (drop (length (trace demo_session)) (trace s1))
              \<and> SwarmOptions p = demo_swarm)"
    unfolding v d by blast+
  from facts(1) ok have r: "r = None" by (metis fst_conv)
  from facts(1) lst have l: "last (trace s1)
            = ConfigureSwarmCall
                (demo_prov\<lparr>SwarmOptions := demo_swarm, AuthOptions := ''/etc/docker'',
                   EngineOptions := demo_engine ''overlay'' ''https://get.docker.com''\<rparr>)
                (demo_swarm\<lparr>swarm_Env := [''HTTP_PROXY=p'']\<rparr>) ''/etc/docker''"
    by (metis snd_conv)
  from h v d call r facts l show ?thesis by auto
qed

end
